theory Spec2Isabelle
  imports Main "HOL-Library.AList"
begin

section \<open>JavaScript strings\<close>

text \<open>
  A JavaScript string is modelled as a \<^typ>\<open>string\<close>: one \<^typ>\<open>char\<close> per code unit
  (code units above 255 are outside the model). Offsets are natural numbers; the
  source never passes a negative one to \<open>slice\<close>.
\<close>

definition js_whitespace :: "char list" where
  "js_whitespace = [CHR 0x09, CHR 0x0A, CHR 0x0B, CHR 0x0C, CHR 0x0D, CHR 0x20, CHR 0xA0]"

definition line_terminators :: "char list" where
  "line_terminators = [CHR 0x0A, CHR 0x0D]"

definition digit_chars :: "char list" where
  "digit_chars = ''0123456789''"

definition word_chars :: "char list" where
  "word_chars = ''abcdefghijklmnopqrstuvwxyzABCDEFGHIJKLMNOPQRSTUVWXYZ0123456789_''"

text \<open>\<open>String.prototype.trim\<close>.\<close>

definition trim :: "string \<Rightarrow> string" where
  "trim s = rev (dropWhile (\<lambda>c. c \<in> set js_whitespace)
                  (rev (dropWhile (\<lambda>c. c \<in> set js_whitespace) s)))"

text \<open>\<open>s.startsWith(p)\<close>, \<open>s.slice(n)\<close> and \<open>s.slice(a, b)\<close> for non-negative offsets.\<close>

definition startsWith :: "string \<Rightarrow> string \<Rightarrow> bool" where
  "startsWith s p = (take (length p) s = p)"

definition slice_from :: "string \<Rightarrow> nat \<Rightarrow> string" where
  "slice_from s n = drop n s"

definition slice :: "string \<Rightarrow> nat \<Rightarrow> nat \<Rightarrow> string" where
  "slice s a b = take (b - a) (drop a s)"

text \<open>
  \<open>s.split(sep)\<close> for a one-character separator (the source splits on
  \<open>' '\<close> and on \<open>'\n'\<close> only). The empty string splits into one empty piece.
\<close>

fun split_acc :: "char \<Rightarrow> string \<Rightarrow> string \<Rightarrow> string list" where
  "split_acc sep acc [] = [rev acc]"
| "split_acc sep acc (x # xs) =
     (if x = sep then rev acc # split_acc sep [] xs else split_acc sep (x # acc) xs)"

definition split :: "string \<Rightarrow> char \<Rightarrow> string list" where
  "split s sep = split_acc sep [] s"

text \<open>
  \<open>s.indexOf(t)\<close>: the offset of the first occurrence of \<open>t\<close> in \<open>s\<close>, or \<open>-1\<close>.
\<close>

fun indexOf_from :: "string \<Rightarrow> string \<Rightarrow> nat \<Rightarrow> int" where
  "indexOf_from [] t i = (if t = [] then int i else -1)"
| "indexOf_from (x # xs) t i =
     (if take (length t) (x # xs) = t then int i else indexOf_from xs t (Suc i))"

definition indexOf :: "string \<Rightarrow> string \<Rightarrow> int" where
  "indexOf s t = indexOf_from s t 0"

definition includes_str :: "string \<Rightarrow> string \<Rightarrow> bool" where
  "includes_str s t = (indexOf s t \<noteq> -1)"

text \<open>\<open>toLowerCase\<close> on the ASCII letters.\<close>

definition lower_char :: "char \<Rightarrow> char" where
  "lower_char c =
     (let n = (of_char c :: nat)
      in if 65 \<le> n \<and> n \<le> 90 then char_of (n + 32) else c)"

definition toLowerCase :: "string \<Rightarrow> string" where
  "toLowerCase s = map lower_char s"

text \<open>\<open>Number.prototype.toString\<close> on a non-negative integer.\<close>

definition digit_char :: "nat \<Rightarrow> char" where
  "digit_char d = char_of (48 + d)"

fun toString :: "nat \<Rightarrow> string" where
  "toString n = (if n < 10 then [digit_char n] else toString (n div 10) @ [digit_char (n mod 10)])"

declare toString.simps [simp del]

text \<open>
  \<open>parseInt\<close>, which the sources apply to the text of a \<open>(\d+)\<close> capture: the value of
  the leading run of decimal digits, \<open>None\<close> (for \<open>NaN\<close>) when there is none. Leading
  white space, a sign and a hexadecimal prefix, which such a capture never has, are not
  modelled. Numbers are exact (no rounding above \<open>2^53\<close>).
\<close>

definition digit_val :: "char \<Rightarrow> nat" where
  "digit_val c = (of_char c :: nat) - 48"

definition parseInt :: "string \<Rightarrow> nat option" where
  "parseInt s =
     (let ds = takeWhile (\<lambda>c. c \<in> set digit_chars) s
      in if ds = [] then None else Some (foldl (\<lambda>a c. 10 * a + digit_val c) 0 ds))"

section \<open>Regular expressions\<close>

text \<open>
  The fragment of the JavaScript regular-expression language the source uses, with the
  backtracking semantics of the language: a matcher returns every way to match from a
  position, in the order backtracking tries them, so the head of the list is the match
  JavaScript reports. A state is the end offset and the captures so far.
\<close>

datatype regex =
    Lit string                  \<comment> \<open>a literal run of characters\<close>
  | OneOf "char list"           \<comment> \<open>\<open>[...]\<close>\<close>
  | NoneOf "char list"          \<comment> \<open>\<open>[^...]\<close>\<close>
  | Seq regex regex
  | Alt regex regex             \<comment> \<open>\<open>a|b\<close>, \<open>a\<close> tried first\<close>
  | Opt regex                   \<comment> \<open>\<open>r?\<close>\<close>
  | Star regex                  \<comment> \<open>\<open>r*\<close>\<close>
  | StarLazy regex              \<comment> \<open>\<open>r*?\<close>\<close>
  | Plus regex                  \<comment> \<open>\<open>r+\<close>\<close>
  | PlusLazy regex              \<comment> \<open>\<open>r+?\<close>\<close>
  | Group nat regex             \<comment> \<open>capture group number \<open>n\<close>\<close>
  | NotAhead regex              \<comment> \<open>\<open>(?!r)\<close>\<close>
  | NotBehind "char list"       \<comment> \<open>\<open>(?<![...])\<close> for one character\<close>
  | Bol                         \<comment> \<open>\<open>^\<close> without the \<open>m\<close> flag\<close>
  | BolM                        \<comment> \<open>\<open>^\<close> with the \<open>m\<close> flag\<close>

type_synonym captures = "(nat \<times> string) list"
type_synonym mstate = "nat \<times> captures"

fun seqs :: "regex list \<Rightarrow> regex" where
  "seqs [] = Lit []"
| "seqs [r] = r"
| "seqs (r # rs) = Seq r (seqs rs)"

fun groups :: "regex \<Rightarrow> nat list" where
  "groups (Seq a b) = groups a @ groups b"
| "groups (Alt a b) = groups a @ groups b"
| "groups (Opt r) = groups r"
| "groups (Star r) = groups r"
| "groups (StarLazy r) = groups r"
| "groups (Plus r) = groups r"
| "groups (PlusLazy r) = groups r"
| "groups (Group n r) = n # groups r"
| "groups (NotAhead r) = groups r"
| "groups _ = []"

text \<open>Entering an iteration of a quantifier resets the captures inside it.\<close>

definition clear :: "regex \<Rightarrow> captures \<Rightarrow> captures" where
  "clear r c = filter (\<lambda>(k, v). k \<notin> set (groups r)) c"

fun rweight :: "regex \<Rightarrow> nat" where
  "rweight (Seq a b) = Suc (rweight a + rweight b)"
| "rweight (Alt a b) = Suc (rweight a + rweight b)"
| "rweight (Opt r) = Suc (rweight r)"
| "rweight (Star r) = Suc (rweight r)"
| "rweight (StarLazy r) = Suc (rweight r)"
| "rweight (Plus r) = Suc (Suc (rweight r))"
| "rweight (PlusLazy r) = Suc (Suc (rweight r))"
| "rweight (Group n r) = Suc (rweight r)"
| "rweight (NotAhead r) = Suc (rweight r)"
| "rweight _ = 0"

text \<open>
  An iteration of \<open>*\<close> or \<open>?\<close> that matches the empty string is rejected (the
  language's rule against empty iterations), so every further iteration moves the end
  offset forward; the first iteration of \<open>+\<close> is not subject to the rule.
\<close>

function rmatch :: "regex \<Rightarrow> string \<Rightarrow> mstate \<Rightarrow> mstate list" where
  "rmatch (Lit l) s (i, c) = (if take (length l) (drop i s) = l then [(i + length l, c)] else [])"
| "rmatch (OneOf cs) s (i, c) = (if i < length s \<and> s ! i \<in> set cs then [(Suc i, c)] else [])"
| "rmatch (NoneOf cs) s (i, c) = (if i < length s \<and> s ! i \<notin> set cs then [(Suc i, c)] else [])"
| "rmatch (Seq a b) s (i, c) = concat (map (\<lambda>st. rmatch b s st) (rmatch a s (i, c)))"
| "rmatch (Alt a b) s (i, c) = rmatch a s (i, c) @ rmatch b s (i, c)"
| "rmatch (Opt r) s (i, c) = filter (\<lambda>st. i < fst st) (rmatch r s (i, clear r c)) @ [(i, c)]"
| "rmatch (Star r) s (i, c) =
     concat (map (\<lambda>st. if i < fst st \<and> fst st \<le> length s then rmatch (Star r) s st else [])
                 (rmatch r s (i, clear r c))) @ [(i, c)]"
| "rmatch (StarLazy r) s (i, c) =
     (i, c) # concat (map (\<lambda>st. if i < fst st \<and> fst st \<le> length s
                                  then rmatch (StarLazy r) s st else [])
                          (rmatch r s (i, clear r c)))"
| "rmatch (Plus r) s (i, c) = concat (map (\<lambda>st. rmatch (Star r) s st) (rmatch r s (i, clear r c)))"
| "rmatch (PlusLazy r) s (i, c) =
     concat (map (\<lambda>st. rmatch (StarLazy r) s st) (rmatch r s (i, clear r c)))"
| "rmatch (Group n r) s (i, c) =
     map (\<lambda>st. (fst st, (n, slice s i (fst st)) # snd st)) (rmatch r s (i, c))"
| "rmatch (NotAhead r) s (i, c) = (if rmatch r s (i, c) = [] then [(i, c)] else [])"
| "rmatch (NotBehind cs) s (i, c) = (if 0 < i \<and> s ! (i - 1) \<in> set cs then [] else [(i, c)])"
| "rmatch Bol s (i, c) = (if i = 0 then [(i, c)] else [])"
| "rmatch BolM s (i, c) =
     (if i = 0 \<or> s ! (i - 1) \<in> set line_terminators then [(i, c)] else [])"
  by pat_completeness auto
termination
  by (relation "inv_image (less_than <*lex*> less_than)
                  (\<lambda>(r, s, st). (rweight r, Suc (length s) - fst st))") auto

text \<open>
  A match: start offset, end offset, captures. \<open>rexec\<close> tries one start offset,
  \<open>rsearch\<close> the offsets from \<open>i\<close> up to the end of the text, as \<open>exec\<close> does from
  \<open>lastIndex\<close>.
\<close>

type_synonym rmatch_result = "nat \<times> nat \<times> captures"

definition rexec :: "regex \<Rightarrow> string \<Rightarrow> nat \<Rightarrow> rmatch_result option" where
  "rexec r s i = (case rmatch r s (i, []) of [] \<Rightarrow> None | (j, c) # _ \<Rightarrow> Some (i, j, c))"

primrec rsearch_n :: "regex \<Rightarrow> string \<Rightarrow> nat \<Rightarrow> nat \<Rightarrow> rmatch_result option" where
  "rsearch_n r s i 0 = None"
| "rsearch_n r s i (Suc n) =
     (case rexec r s i of Some m \<Rightarrow> Some m | None \<Rightarrow> rsearch_n r s (Suc i) n)"

definition rsearch :: "regex \<Rightarrow> string \<Rightarrow> nat \<Rightarrow> rmatch_result option" where
  "rsearch r s i = rsearch_n r s i (Suc (length s) - i)"

definition group :: "rmatch_result \<Rightarrow> nat \<Rightarrow> string option" where
  "group m n = map_of (snd (snd m)) n"

definition matched :: "string \<Rightarrow> rmatch_result \<Rightarrow> string" where
  "matched s m = slice s (fst m) (fst (snd m))"

definition test :: "regex \<Rightarrow> string \<Rightarrow> bool" where
  "test r s = (rsearch r s 0 \<noteq> None)"

text \<open>A matcher never moves the end offset backwards.\<close>

lemma rmatch_mono: "st' \<in> set (rmatch r s st) \<Longrightarrow> fst st \<le> fst st'"
proof (induction r s st arbitrary: st' rule: rmatch.induct)
  case (4 a b s i c)
  then obtain m where m: "m \<in> set (rmatch a s (i, c))" and st': "st' \<in> set (rmatch b s m)"
    by auto
  from "4.IH"(1) [OF m] "4.IH"(2) [OF m st'] show ?case by simp
next
  case (7 r s i c)
  show ?case
  proof (cases "st' = (i, c)")
    case True then show ?thesis by simp
  next
    case False
    with "7.prems" obtain m where m: "m \<in> set (rmatch r s (i, clear r c))"
      and g: "i < fst m \<and> fst m \<le> length s" and st': "st' \<in> set (rmatch (Star r) s m)"
      by (auto split: if_splits)
    from "7.IH"(2) [OF m g st'] g show ?thesis by simp
  qed
next
  case (8 r s i c)
  show ?case
  proof (cases "st' = (i, c)")
    case True then show ?thesis by simp
  next
    case False
    with "8.prems" obtain m where m: "m \<in> set (rmatch r s (i, clear r c))"
      and g: "i < fst m \<and> fst m \<le> length s" and st': "st' \<in> set (rmatch (StarLazy r) s m)"
      by (auto split: if_splits)
    from "8.IH"(2) [OF m g st'] g show ?thesis by simp
  qed
next
  case (9 r s i c)
  then obtain m where m: "m \<in> set (rmatch r s (i, clear r c))"
    and st': "st' \<in> set (rmatch (Star r) s m)"
    by auto
  from "9.IH"(1) [OF m] "9.IH"(2) [OF m st'] show ?case by simp
next
  case (10 r s i c)
  then obtain m where m: "m \<in> set (rmatch r s (i, clear r c))"
    and st': "st' \<in> set (rmatch (StarLazy r) s m)"
    by auto
  from "10.IH"(1) [OF m] "10.IH"(2) [OF m st'] show ?case by simp
qed (auto split: if_splits)

lemma rexec_bounds: "rexec r s i = Some (a, b, c) \<Longrightarrow> a = i \<and> i \<le> b"
  using rmatch_mono [of "(b, c)" r s "(i, [])"]
  by (auto simp: rexec_def split: list.splits)

lemma rsearch_n_bounds: "rsearch_n r s i n = Some (a, b, c) \<Longrightarrow> i \<le> a \<and> a \<le> b"
proof (induction n arbitrary: i)
  case 0
  then show ?case by simp
next
  case (Suc n)
  show ?case
  proof (cases "rexec r s i")
    case None
    with Suc.prems have "rsearch_n r s (Suc i) n = Some (a, b, c)" by simp
    from Suc.IH [OF this] show ?thesis by simp
  next
    case (Some m)
    with Suc.prems have "rexec r s i = Some (a, b, c)" by simp
    from rexec_bounds [OF this] show ?thesis by simp
  qed
qed

lemma rsearch_bounds: "rsearch r s i = Some (a, b, c) \<Longrightarrow> i \<le> a \<and> a \<le> b"
  unfolding rsearch_def by (rule rsearch_n_bounds)

text \<open>
  \<open>s.matchAll(r)\<close> for a global \<open>r\<close>: the successive matches from offset 0; after an
  empty match the search resumes one offset further.
\<close>

function matchAll_from :: "regex \<Rightarrow> string \<Rightarrow> nat \<Rightarrow> rmatch_result list" where
  "matchAll_from r s i =
     (if length s < i then []
      else case rsearch r s i of
             None \<Rightarrow> []
           | Some (a, b, c) \<Rightarrow> (a, b, c) # matchAll_from r s (if b = a then Suc b else b))"
  by pat_completeness auto
termination
proof (relation "measure (\<lambda>(r, s, i). Suc (length s) - i)")
  fix r :: regex and s :: string and i :: nat and m a y b c
  assume "\<not> length s < i" and "rsearch r s i = Some m" and "(a, y) = m" and "(b, c) = y"
  then have "i \<le> a \<and> a \<le> b" using rsearch_bounds [of r s i a b c] by simp
  then show "((r, s, if b = a then Suc b else b), r, s, i) \<in> measure (\<lambda>(r, s, i). Suc (length s) - i)"
    using \<open>\<not> length s < i\<close> by auto
qed simp

declare matchAll_from.simps [simp del]

definition matchAll :: "regex \<Rightarrow> string \<Rightarrow> rmatch_result list" where
  "matchAll r s = matchAll_from r s 0"

text \<open>
  \<open>s.replace(r, f)\<close> for a global \<open>r\<close> and a callback \<open>f\<close>: the matches are found
  first, then the callback runs on each in order. The callback may read and write
  module state, which is threaded through the calls.
\<close>

fun replace_build ::
  "string \<Rightarrow> nat \<Rightarrow> rmatch_result list \<Rightarrow> (rmatch_result \<Rightarrow> 'a \<Rightarrow> string \<times> 'a) \<Rightarrow> 'a \<Rightarrow> string \<times> 'a"
where
  "replace_build s pos [] f st = (drop pos s, st)"
| "replace_build s pos (m # ms) f st =
     (let (rep, st') = f m st;
          (rest, st'') = replace_build s (fst (snd m)) ms f st'
      in (slice s pos (fst m) @ rep @ rest, st''))"

definition replace_fn ::
  "regex \<Rightarrow> (rmatch_result \<Rightarrow> 'a \<Rightarrow> string \<times> 'a) \<Rightarrow> string \<Rightarrow> 'a \<Rightarrow> string \<times> 'a"
where
  "replace_fn r f s st = replace_build s 0 (matchAll r s) f st"

text \<open>The same with a replacement that depends on the match only.\<close>

definition replace_all :: "regex \<Rightarrow> (rmatch_result \<Rightarrow> string) \<Rightarrow> string \<Rightarrow> string" where
  "replace_all r g s = fst (replace_fn r (\<lambda>m u. (g m, u)) s ())"

text \<open>A value used as a string: \<open>undefined\<close> reads \<open>undefined\<close>.\<close>

definition js_str :: "string option \<Rightarrow> string" where
  "js_str v = (case v of None \<Rightarrow> ''undefined'' | Some x \<Rightarrow> x)"

text \<open>A \<open>$n\<close> of a replacement template: the capture, empty when it did not take part.\<close>

definition dollar :: "rmatch_result \<Rightarrow> nat \<Rightarrow> string" where
  "dollar m n = (case group m n of None \<Rightarrow> [] | Some x \<Rightarrow> x)"

section \<open>The field formatter: cloze conversion\<close>

definition digit :: regex where
  "digit = OneOf digit_chars"

definition any_char :: regex where
  "any_char = NoneOf []"

text \<open>
  \<^verbatim>\<open>/(?:(?<!{){(?:c?(\d+)[:|])?(?!{))((?:[^\n][\n]?)+?)(?:(?<!})}(?!}))/g\<close>
\<close>

definition CLOZE_REGEXP :: regex where
  "CLOZE_REGEXP = seqs
     [seqs [NotBehind ''{'', Lit ''{'',
            Opt (seqs [Opt (Lit ''c''), Group 1 (Plus digit), OneOf '':|'']),
            NotAhead (Lit ''{'')],
      Group 2 (PlusLazy (Seq (NoneOf [CHR 0x0A]) (Opt (OneOf [CHR 0x0A])))),
      seqs [NotBehind ''}'', Lit ''}'', NotAhead (Lit ''}'')]]"

text \<open>
  The module variable \<open>clozeUnsetNum\<close> is the state. \<open>cloze_repl\<close> reads it for a
  span without a number; the statement that would increment it is commented out in
  the source, so the callback returns it unchanged.
\<close>

definition cloze_repl :: "string option \<Rightarrow> string \<Rightarrow> nat \<Rightarrow> string \<times> nat" where
  "cloze_repl matchId matchContent clozeUnsetNum =
     (case matchId of
        None \<Rightarrow> (''{{c'' @ toString clozeUnsetNum @ ''::'' @ matchContent @ ''}}'', clozeUnsetNum)
      | Some i \<Rightarrow> (''{{c'' @ i @ ''::'' @ matchContent @ ''}}'', clozeUnsetNum))"

definition curly_to_cloze :: "string \<Rightarrow> nat \<Rightarrow> string \<times> nat" where
  "curly_to_cloze text clozeUnsetNum =
     (let (text', n) = replace_fn CLOZE_REGEXP
                         (\<lambda>m. cloze_repl (group m 1) (js_str (group m 2))) text clozeUnsetNum
      in (text', 1))"

text \<open>
  What the source does, in the words of a replacement: every span is rewritten with the
  same number \<open>num\<close> unless it carries its own.
\<close>

definition cloze_markup :: "nat \<Rightarrow> rmatch_result \<Rightarrow> string" where
  "cloze_markup num m =
     ''{{c'' @ (case group m 1 of None \<Rightarrow> toString num | Some i \<Rightarrow> i) @ ''::''
       @ js_str (group m 2) @ ''}}''"

section \<open>The field formatter: the pipeline\<close>

text \<open>
  The constants module and the markdown renderer are not part of the sources at hand:
  the four patterns of the constants module, the stylesheet address, the renderer
  \<open>makeHtml\<close> and the two passes that consult the metadata cache
  (\<open>getAndFormatMedias\<close>, \<open>formatLinks\<close>) are parameters of the pipeline.
\<close>

record format_env =
  OBS_INLINE_MATH_REGEXP :: regex
  OBS_DISPLAY_MATH_REGEXP :: regex
  OBS_CODE_REGEXP :: regex
  OBS_DISPLAY_CODE_REGEXP :: regex
  CODE_CSS_URL :: string
  makeHtml :: "string \<Rightarrow> string"
  getAndFormatMedias :: "string \<Rightarrow> string"
  formatLinks :: "string \<Rightarrow> string"

definition backslash :: char where
  "backslash = CHR 0x5C"

text \<open>\<^verbatim>\<open>/(\\\[[\s\S]*?\\\])|(\\\([\s\S]*?\\\))/g\<close> and \<^verbatim>\<open>/==(.*?)==/g\<close>\<close>

definition ANKI_MATH_REGEXP :: regex where
  "ANKI_MATH_REGEXP =
     Alt (Group 1 (seqs [Lit [backslash, CHR ''[''], StarLazy any_char, Lit [backslash, CHR '']'']]))
         (Group 2 (seqs [Lit [backslash, CHR ''(''], StarLazy any_char, Lit [backslash, CHR '')'']]))"

definition HIGHLIGHT_REGEXP :: regex where
  "HIGHLIGHT_REGEXP = seqs [Lit ''=='', Group 1 (StarLazy (NoneOf line_terminators)), Lit ''=='']"

definition MATH_REPLACE :: string where
  "MATH_REPLACE = ''OBSTOANKIMATH''"

definition INLINE_CODE_REPLACE :: string where
  "INLINE_CODE_REPLACE = ''OBSTOANKICODEINLINE''"

definition DISPLAY_CODE_REPLACE :: string where
  "DISPLAY_CODE_REPLACE = ''OBSTOANKICODEDISPLAY''"

definition PARA_OPEN :: string where
  "PARA_OPEN = ''<p>''"

definition PARA_CLOSE :: string where
  "PARA_CLOSE = ''</p>''"

definition replace_char :: "char \<Rightarrow> string \<Rightarrow> string \<Rightarrow> string" where
  "replace_char c rep s = concat (map (\<lambda>x. if x = c then rep else [x]) s)"

definition escapeHtml :: "string \<Rightarrow> string" where
  "escapeHtml unsafe =
     replace_char (CHR 0x27) ''&#039;''
       (replace_char (CHR 0x22) ''&quot;''
         (replace_char CHR ''>'' ''&gt;''
           (replace_char CHR ''<'' ''&lt;''
             (replace_char CHR ''&'' ''&amp;'' unsafe))))"

definition obsidian_to_anki_math :: "format_env \<Rightarrow> string \<Rightarrow> string" where
  "obsidian_to_anki_math env noteText =
     replace_all (OBS_INLINE_MATH_REGEXP env)
       (\<lambda>m. [backslash, CHR ''(''] @ dollar m 1 @ [backslash, CHR '')''])
       (replace_all (OBS_DISPLAY_MATH_REGEXP env)
          (\<lambda>m. [backslash, CHR ''[''] @ dollar m 1 @ [backslash, CHR '']'']) noteText)"

definition censor :: "string \<Rightarrow> regex \<Rightarrow> string \<Rightarrow> string \<times> string list" where
  "censor noteText regexp maskStr =
     (replace_all regexp (\<lambda>m. maskStr) noteText, map (matched noteText) (matchAll regexp noteText))"

text \<open>
  \<open>s.replace(mask, replacement)\<close> with a string pattern: the first occurrence only, and
  the replacement text is read as a template (\<open>$$\<close>, \<open>$&\<close>, \<open>$`\<close>, \<open>$'\<close>).
\<close>

fun expand_template :: "string \<Rightarrow> string \<Rightarrow> string \<Rightarrow> string \<Rightarrow> string" where
  "expand_template [] mt pre post = []"
| "expand_template [x] mt pre post = [x]"
| "expand_template (x # y # r) mt pre post =
     (if x \<noteq> CHR ''$'' then x # expand_template (y # r) mt pre post
      else if y = CHR ''$'' then CHR ''$'' # expand_template r mt pre post
      else if y = CHR ''&'' then mt @ expand_template r mt pre post
      else if y = CHR 0x60 then pre @ expand_template r mt pre post
      else if y = CHR 0x27 then post @ expand_template r mt pre post
      else x # expand_template (y # r) mt pre post)"

definition replace_first_str :: "string \<Rightarrow> string \<Rightarrow> string \<Rightarrow> string" where
  "replace_first_str s pat rep =
     (let i = indexOf s pat
      in if i < 0 then s
         else let pre = take (nat i) s; post = drop (nat i + length pat) s
              in pre @ expand_template rep pat pre post @ post)"

fun decensor :: "string \<Rightarrow> string \<Rightarrow> string list \<Rightarrow> bool \<Rightarrow> string" where
  "decensor noteText maskStr [] escape = noteText"
| "decensor noteText maskStr (replacement # replacements) escape =
     decensor (replace_first_str noteText maskStr (if escape then escapeHtml replacement else replacement))
              maskStr replacements escape"

definition endsWith :: "string \<Rightarrow> string \<Rightarrow> bool" where
  "endsWith s p = (length p \<le> length s \<and> drop (length s - length p) s = p)"

text \<open>
  \<open>format\<close>, with the module variable \<open>clozeUnsetNum\<close> passed in and returned.
  \<open>noteText.slice(3, -4)\<close> keeps the characters from offset 3 to 4 before the end.
\<close>

definition format :: "format_env \<Rightarrow> string \<Rightarrow> bool \<Rightarrow> bool \<Rightarrow> nat \<Rightarrow> string \<times> nat" where
  "format env noteText0 cloze highlightToCloze clozeUnsetNum =
     (let noteText = obsidian_to_anki_math env noteText0;
          addHighlightCss = (matchAll (OBS_DISPLAY_CODE_REGEXP env) noteText \<noteq> []);
          (noteText, mathMatches) = censor noteText ANKI_MATH_REGEXP MATH_REPLACE;
          (noteText, displayCodeMatches) =
             censor noteText (OBS_DISPLAY_CODE_REGEXP env) DISPLAY_CODE_REPLACE;
          (noteText, inlineCodeMatches) = censor noteText (OBS_CODE_REGEXP env) INLINE_CODE_REPLACE;
          (noteText, num) =
             (if cloze
              then curly_to_cloze
                     (if highlightToCloze
                      then replace_all HIGHLIGHT_REGEXP (\<lambda>m. ''{'' @ dollar m 1 @ ''}'') noteText
                      else noteText)
                     clozeUnsetNum
              else (noteText, clozeUnsetNum));
          noteText = getAndFormatMedias env noteText;
          noteText = formatLinks env noteText;
          noteText = replace_all HIGHLIGHT_REGEXP (\<lambda>m. ''<mark>'' @ dollar m 1 @ ''</mark>'') noteText;
          noteText = decensor noteText DISPLAY_CODE_REPLACE displayCodeMatches False;
          noteText = decensor noteText INLINE_CODE_REPLACE inlineCodeMatches False;
          noteText = makeHtml env noteText;
          noteText = trim (decensor noteText MATH_REPLACE mathMatches True);
          noteText = (if startsWith noteText PARA_OPEN \<and> endsWith noteText PARA_CLOSE
                      then slice noteText (length PARA_OPEN) (length noteText - length PARA_CLOSE)
                      else noteText);
          noteText = (if addHighlightCss
                      then ''<link href='' @ [CHR 0x22] @ CODE_CSS_URL env @ [CHR 0x22]
                             @ '' rel='' @ [CHR 0x22] @ ''stylesheet'' @ [CHR 0x22] @ ''>'' @ noteText
                      else noteText)
      in (noteText, num))"

section \<open>Notes and the state of a scan\<close>

text \<open>
  A JavaScript number that holds an identifier: a non-negative integer, or \<open>NaN\<close>. An
  identifier of a note is such a number or \<open>null\<close> (\<open>None\<close>).
\<close>

datatype jsnum = NaN | Num nat

definition CLOZE_ERROR :: jsnum where
  "CLOZE_ERROR = Num 42"

definition NOTE_TYPE_ERROR :: jsnum where
  "NOTE_TYPE_ERROR = Num 69"

definition TAG_PREFIX :: string where
  "TAG_PREFIX = ''Tags: ''"

definition TAG_SEP :: char where
  "TAG_SEP = CHR '' ''"

text \<open>
  An object with string values (\<open>Record<string, string>\<close>) is an association list in
  insertion order, without repeated keys: \<open>obj_set\<close> is the assignment \<open>o[k] = v\<close>.
  A key or a value that is \<open>undefined\<close> reads as the text \<open>undefined\<close> where the
  language turns it into a string.
\<close>

type_synonym obj = "(string \<times> string) list"

definition obj_get :: "obj \<Rightarrow> string \<Rightarrow> string option" where
  "obj_get ob k = map_of ob k"

definition obj_set :: "obj \<Rightarrow> string \<Rightarrow> string \<Rightarrow> obj" where
  "obj_set ob k v = AList.update k v ob"


text \<open>\<open>o[k] += v\<close>\<close>

definition obj_append :: "obj \<Rightarrow> string \<Rightarrow> string \<Rightarrow> obj" where
  "obj_append ob k v = obj_set ob k (js_str (obj_get ob k) @ v)"

text \<open>
  A note type is a string, \<open>undefined\<close> or \<open>null\<close> (the last from the callout
  variant); used as a property name it is turned into a string.
\<close>

datatype jstext = Undefined | Null | Str string

definition prop_key :: "jstext \<Rightarrow> string" where
  "prop_key v = (case v of Undefined \<Rightarrow> ''undefined'' | Null \<Rightarrow> ''null'' | Str x \<Rightarrow> x)"

definition of_opt :: "string option \<Rightarrow> jstext" where
  "of_opt v = (case v of None \<Rightarrow> Undefined | Some x \<Rightarrow> Str x)"

text \<open>The payload sent to the store, and a payload with its identifier.\<close>

record AnkiConnectNote =
  deckName :: string
  modelName :: jstext
  note_fields :: obj
  tags :: "string list"

record AnkiConnectNoteAndID =
  anki_note :: AnkiConnectNote
  ident :: "jsnum option"

datatype js_error = TypeError

text \<open>What the scanner writes to the console.\<close>

datatype report =
    UnknownNoteType jstext
  | DoesNotExist jsnum
  | EmptyFrontOrBack

text \<open>
  The lists an \<open>AllFile\<close> builds during a scan and reads back when the identifiers
  arrive, with the console as a list of reports.
\<close>

record AllFile =
  file_text :: string
  ignore_spans :: "(nat \<times> nat) list"
  notes_to_add :: "AnkiConnectNote list"
  id_indexes :: "nat list"
  inline_notes_to_add :: "AnkiConnectNote list"
  inline_id_indexes :: "nat list"
  regex_notes_to_add :: "AnkiConnectNote list"
  regex_id_indexes :: "nat list"
  callout_notes_to_add :: "AnkiConnectNote list"
  callout_id_indexes :: "nat list"
  notes_to_edit :: "AnkiConnectNoteAndID list"
  note_ids :: "jsnum option list"
  console :: "report list"

section \<open>Writing the identifiers back\<close>

definition id_to_str :: "nat \<Rightarrow> bool \<Rightarrow> bool \<Rightarrow> string" where
  "id_to_str idn inline comment =
     (let result = ''ID: '' @ toString idn;
          result = (if comment then ''<!--'' @ result @ ''-->'' else result)
      in if inline then result @ '' '' else result @ [CHR 0x0A])"

text \<open>
  \<open>string_insert\<close>: the insertions are sorted by offset (the sort is stable), then
  applied left to right with the running offset.
\<close>

fun insert_loop :: "string \<Rightarrow> nat \<Rightarrow> (nat \<times> string) list \<Rightarrow> string" where
  "insert_loop text offset [] = text"
| "insert_loop text offset ((position, insert_str) # rest) =
     insert_loop (take (position + offset) text @ insert_str @ drop (position + offset) text)
                 (offset + length insert_str) rest"

definition string_insert :: "string \<Rightarrow> (nat \<times> string) list \<Rightarrow> string" where
  "string_insert text position_inserts = insert_loop text 0 (sort_key fst position_inserts)"

text \<open>\<^verbatim>\<open>/(?:\r\n|\r|\n)((?:\r\n|\r|\n)(?:<!--)?ID: \d+)/g\<close>\<close>

definition newline :: regex where
  "newline = Alt (Lit [CHR 0x0D, CHR 0x0A]) (Alt (Lit [CHR 0x0D]) (Lit [CHR 0x0A]))"

definition double_regexp :: regex where
  "double_regexp =
     Seq newline (Group 1 (seqs [newline, Opt (Lit ''<!--''), Lit ''ID: '', Plus digit]))"

definition fix_newline_ids :: "string \<Rightarrow> string" where
  "fix_newline_ids text = replace_all double_regexp (\<lambda>m. dollar m 1) text"

text \<open>
  \<open>this.note_ids[i]\<close> is \<open>undefined\<close> past the end of the array; \<open>if (identifier)\<close>
  holds for a number other than 0 and \<open>NaN\<close>. \<open>truthy_id\<close> is the identifier when the
  test holds.
\<close>

definition truthy_id :: "jsnum option list \<Rightarrow> nat \<Rightarrow> nat option" where
  "truthy_id ids i =
     (if i < length ids
      then (case ids ! i of Some (Num n) \<Rightarrow> (if n = 0 then None else Some n) | _ \<Rightarrow> None)
      else None)"

text \<open>
  The four \<open>forEach\<close> loops of \<open>writeIDs\<close>. Each reads \<open>this.note_ids\<close> at the index
  written in the source: block notes at \<open>index\<close>, inline notes after the block notes,
  pattern-defined notes after both, and callout notes at \<open>index\<close>.
\<close>

definition normalInserts :: "AllFile \<Rightarrow> bool \<Rightarrow> (nat \<times> string) list" where
  "normalInserts f comment =
     concat (map (\<lambda>(index, idPosition).
                    case truthy_id (note_ids f) index of
                      Some idn \<Rightarrow> [(idPosition, id_to_str idn False comment)]
                    | None \<Rightarrow> [])
                 (enumerate 0 (id_indexes f)))"

definition inlineInserts :: "AllFile \<Rightarrow> bool \<Rightarrow> (nat \<times> string) list" where
  "inlineInserts f comment =
     concat (map (\<lambda>(index, idPosition).
                    case truthy_id (note_ids f) (index + length (notes_to_add f)) of
                      Some idn \<Rightarrow> [(idPosition, id_to_str idn True comment)]
                    | None \<Rightarrow> [])
                 (enumerate 0 (inline_id_indexes f)))"

definition regexInserts :: "AllFile \<Rightarrow> bool \<Rightarrow> (nat \<times> string) list" where
  "regexInserts f comment =
     concat (map (\<lambda>(index, idPosition).
                    case truthy_id (note_ids f)
                           (index + length (notes_to_add f) + length (inline_notes_to_add f)) of
                      Some idn \<Rightarrow> [(idPosition, [CHR 0x0A] @ id_to_str idn False comment)]
                    | None \<Rightarrow> [])
                 (enumerate 0 (regex_id_indexes f)))"

definition calloutInserts :: "AllFile \<Rightarrow> bool \<Rightarrow> (nat \<times> string) list" where
  "calloutInserts f comment =
     concat (map (\<lambda>(index, idPosition).
                    case truthy_id (note_ids f) index of
                      Some idn \<Rightarrow> [(idPosition, ''> '' @ id_to_str idn False comment)]
                    | None \<Rightarrow> [])
                 (enumerate 0 (callout_id_indexes f)))"

definition writeIDs :: "AllFile \<Rightarrow> bool \<Rightarrow> AllFile" where
  "writeIDs f comment =
     f\<lparr>file_text := fix_newline_ids
                 (string_insert (file_text f)
                    (normalInserts f comment @ inlineInserts f comment
                       @ regexInserts f comment @ calloutInserts f comment))\<rparr>"

text \<open>\<open>all_notes_to_add\<close>, the creation batch in the order \<open>scanFile\<close> sends it.\<close>

definition all_notes_to_add :: "AllFile \<Rightarrow> AnkiConnectNote list" where
  "all_notes_to_add f =
     notes_to_add f @ inline_notes_to_add f @ regex_notes_to_add f @ callout_notes_to_add f"

section \<open>The note extractors\<close>

text \<open>
  Exceptions are values: an operation that can throw returns \<open>Inl TypeError\<close>, and
  \<open>bind\<close> passes the first exception on.
\<close>

definition bind :: "js_error + 'a \<Rightarrow> ('a \<Rightarrow> js_error + 'b) \<Rightarrow> js_error + 'b" where
  "bind x f = (case x of Inl e \<Rightarrow> Inl e | Inr a \<Rightarrow> f a)"

text \<open>
  The settings a scan reads (\<open>FileData\<close>). The patterns of the settings are built
  outside the sources at hand; their matches enter the scanner as inputs (below).
\<close>

record FileData =
  fields_dict :: "(string \<times> string list) list"
  curly_cloze :: bool
  highlights_to_cloze :: bool
  EXISTING_IDS :: "nat list"
  template :: AnkiConnectNote
  file_link_fields :: obj
  context_fields :: obj
  add_context :: bool
  add_obs_tags :: bool
  comment :: bool

text \<open>
  The state of a note object. The formatter enters as a function of the text and the two switches: for the
  pipeline above it is \<open>\<lambda>t c h. fst (format env t c h 1)\<close>, the counter being 1 at
  every call (\<open>format_counter\<close>).
\<close>

type_synonym formatter = "string \<Rightarrow> bool \<Rightarrow> bool \<Rightarrow> string"

record AbstractNote =
  n_text :: string
  n_split_text :: "string list"
  n_identifier :: "jsnum option"
  n_tags :: "string list"
  n_note_type :: jstext
  n_field_names :: "string list"
  n_current_field :: "string option"
  n_curly_cloze :: bool
  n_highlights_to_cloze :: bool
  n_no_note_type :: bool

text \<open>The four abstract methods the constructor calls, in the order it calls them.\<close>

record note_methods =
  getSplitText :: "AbstractNote \<Rightarrow> string list"
  getIdentifier :: "AbstractNote \<Rightarrow> js_error + jsnum option \<times> AbstractNote"
  getTags :: "AbstractNote \<Rightarrow> js_error + string list \<times> AbstractNote"
  getNoteType :: "AbstractNote \<Rightarrow> js_error + jstext \<times> AbstractNote"

definition nth_opt :: "'a list \<Rightarrow> nat \<Rightarrow> 'a option" where
  "nth_opt xs i = (if i < length xs then Some (xs ! i) else None)"

definition last_opt :: "'a list \<Rightarrow> 'a option" where
  "last_opt xs = (if xs = [] then None else Some (last xs))"

definition AbstractNote_new ::
  "note_methods \<Rightarrow> string \<Rightarrow> (string \<times> string list) list \<Rightarrow> bool \<Rightarrow> bool
   \<Rightarrow> js_error + AbstractNote"
where
  "AbstractNote_new cls note_text fdict curly highlights =
     (let this = \<lparr>n_text = trim note_text, n_split_text = [], n_identifier = None,
                   n_tags = [], n_note_type = Undefined, n_field_names = [],
                   n_current_field = None, n_curly_cloze = False,
                   n_highlights_to_cloze = False, n_no_note_type = False\<rparr>;
          this = this\<lparr>n_split_text := getSplitText cls this\<rparr>
      in bind (getIdentifier cls this) (\<lambda>(i, this).
         let this = this\<lparr>n_identifier := i\<rparr>
         in bind (getTags cls this) (\<lambda>(ts, this).
            let this = this\<lparr>n_tags := ts\<rparr>
            in bind (getNoteType cls this) (\<lambda>(ty, this).
               let this = this\<lparr>n_note_type := ty\<rparr>
               in case map_of fdict (prop_key ty) of
                    None \<Rightarrow> Inr (this\<lparr>n_no_note_type := True\<rparr>)
                  | Some names \<Rightarrow>
                      Inr (this\<lparr>n_field_names := names,
                                n_current_field := nth_opt names 0,
                                n_curly_cloze := curly,
                                n_highlights_to_cloze := highlights\<rparr>)))))"

text \<open>\<^verbatim>\<open>/(?:<!--)?ID: (\d+)/\<close>, \<^verbatim>\<open>/Tags: (.*)/\<close>, \<^verbatim>\<open>/\[(.*?)\]/\<close>\<close>

definition ID_REGEXP :: regex where
  "ID_REGEXP = seqs [Opt (Lit ''<!--''), Lit ''ID: '', Group 1 (Plus digit)]"

definition dot :: regex where
  "dot = NoneOf line_terminators"

definition Inline_TAG_REGEXP :: regex where
  "Inline_TAG_REGEXP = seqs [Lit ''Tags: '', Group 1 (Star dot)]"

definition Inline_TYPE_REGEXP :: regex where
  "Inline_TYPE_REGEXP = seqs [Lit ''['', Group 1 (StarLazy dot), Lit '']'']"

text \<open>\<open>parseInt\<close> of a capture, as a number.\<close>

definition parseInt_num :: "string option \<Rightarrow> jsnum" where
  "parseInt_num v =
     (case v of None \<Rightarrow> NaN
      | Some x \<Rightarrow> (case parseInt x of None \<Rightarrow> NaN | Some n \<Rightarrow> Num n))"

subsection \<open>Block notes\<close>

definition Note_getIdentifier :: "AbstractNote \<Rightarrow> js_error + jsnum option \<times> AbstractNote" where
  "Note_getIdentifier this =
     (let lst = js_str (last_opt (n_split_text this))
      in case rsearch ID_REGEXP lst 0 of
           Some m \<Rightarrow> Inr (Some (parseInt_num (group m 1)),
                           this\<lparr>n_split_text := butlast (n_split_text this)\<rparr>)
         | None \<Rightarrow> Inr (None, this))"

definition Note_getTags :: "AbstractNote \<Rightarrow> js_error + string list \<times> AbstractNote" where
  "Note_getTags this =
     (case last_opt (n_split_text this) of
        None \<Rightarrow> Inl TypeError
      | Some lst \<Rightarrow>
          if startsWith lst TAG_PREFIX
          then Inr (split (slice_from lst (length TAG_PREFIX)) TAG_SEP,
                    this\<lparr>n_split_text := butlast (n_split_text this)\<rparr>)
          else Inr ([], this))"

definition Note_methods :: note_methods where
  "Note_methods =
     \<lparr>getSplitText = (\<lambda>this. split (n_text this) (CHR 0x0A)),
      getIdentifier = Note_getIdentifier,
      getTags = Note_getTags,
      getNoteType = (\<lambda>this. Inr (of_opt (nth_opt (n_split_text this) 0), this))\<rparr>"

definition Note_new ::
  "string \<Rightarrow> (string \<times> string list) list \<Rightarrow> bool \<Rightarrow> bool \<Rightarrow> js_error + AbstractNote"
where
  "Note_new = AbstractNote_new Note_methods"

text \<open>
  \<open>fieldFromLine\<close>: the first field name (in schema order) that the line starts with,
  followed by a colon, selects the field; otherwise the current field stays.
\<close>

fun fieldFromLine :: "string list \<Rightarrow> string option \<Rightarrow> string \<Rightarrow> string \<times> string option" where
  "fieldFromLine [] cur line = (line, cur)"
| "fieldFromLine (field # rest) cur line =
     (if startsWith line (field @ '':'')
      then (slice_from line (length (field @ '':'')), Some field)
      else fieldFromLine rest cur line)"

text \<open>The three loops of \<open>getFields\<close>, shared by the variants where they agree.\<close>

definition init_fields :: "string list \<Rightarrow> obj" where
  "init_fields names = foldl (\<lambda>fs field. obj_set fs field []) [] names"

fun Note_lines :: "string list \<Rightarrow> string option \<Rightarrow> obj \<Rightarrow> string list \<Rightarrow> obj" where
  "Note_lines names cur fs [] = fs"
| "Note_lines names cur fs (line # rest) =
     (let (line', cur') = fieldFromLine names cur line
      in Note_lines names cur' (obj_append fs (js_str cur') (line' @ [CHR 0x0A])) rest)"

fun format_fields :: "formatter \<Rightarrow> bool \<Rightarrow> bool \<Rightarrow> obj \<Rightarrow> obj" where
  "format_fields fmt cloze highlights [] = []"
| "format_fields fmt cloze highlights ((key, v) # rest) =
     (key, trim (fmt (trim v) cloze highlights)) # format_fields fmt cloze highlights rest"

definition is_cloze_type :: "jstext \<Rightarrow> bool" where
  "is_cloze_type ty = includes_str (toLowerCase (prop_key ty)) ''cloze''"

definition Note_getFields :: "formatter \<Rightarrow> AbstractNote \<Rightarrow> obj" where
  "Note_getFields fmt this =
     format_fields fmt (is_cloze_type (n_note_type this) \<and> n_curly_cloze this)
       (n_highlights_to_cloze this)
       (Note_lines (n_field_names this) (n_current_field this)
          (init_fields (n_field_names this)) (drop 1 (n_split_text this)))"

subsection \<open>Inline notes\<close>

text \<open>
  \<open>this.text.match(r)\<close> for a pattern without the global flag is the first match.
  \<open>getNoteType\<close> reads \<open>result.index\<close> without a test: with no match it throws.
\<close>

definition Inline_getIdentifier :: "AbstractNote \<Rightarrow> js_error + jsnum option \<times> AbstractNote" where
  "Inline_getIdentifier this =
     (case rsearch ID_REGEXP (n_text this) 0 of
        Some m \<Rightarrow> Inr (Some (parseInt_num (group m 1)),
                        this\<lparr>n_text := trim (slice (n_text this) 0 (fst m))\<rparr>)
      | None \<Rightarrow> Inr (None, this))"

definition Inline_getTags :: "AbstractNote \<Rightarrow> js_error + string list \<times> AbstractNote" where
  "Inline_getTags this =
     (case rsearch Inline_TAG_REGEXP (n_text this) 0 of
        Some m \<Rightarrow> (case group m 1 of
                      None \<Rightarrow> Inl TypeError
                    | Some g \<Rightarrow> Inr (split g TAG_SEP,
                                      this\<lparr>n_text := trim (slice (n_text this) 0 (fst m))\<rparr>))
      | None \<Rightarrow> Inr ([], this))"

definition Inline_getNoteType :: "AbstractNote \<Rightarrow> js_error + jstext \<times> AbstractNote" where
  "Inline_getNoteType this =
     (case rsearch Inline_TYPE_REGEXP (n_text this) 0 of
        None \<Rightarrow> Inl TypeError
      | Some m \<Rightarrow> Inr (of_opt (group m 1),
                        this\<lparr>n_text := slice_from (n_text this) (fst (snd m))\<rparr>))"

definition InlineNote_methods :: note_methods where
  "InlineNote_methods =
     \<lparr>getSplitText = (\<lambda>this. split (n_text this) (CHR '' '')),
      getIdentifier = Inline_getIdentifier,
      getTags = Inline_getTags,
      getNoteType = Inline_getNoteType\<rparr>"

definition InlineNote_new ::
  "string \<Rightarrow> (string \<times> string list) list \<Rightarrow> bool \<Rightarrow> bool \<Rightarrow> js_error + AbstractNote"
where
  "InlineNote_new = AbstractNote_new InlineNote_methods"

text \<open>
  The inner loop of \<open>getFields\<close>: every field name is compared with the word; a word
  that names a field selects it and is blanked.
\<close>

fun Inline_word :: "string list \<Rightarrow> string option \<Rightarrow> string \<Rightarrow> string \<times> string option" where
  "Inline_word [] cur word = (word, cur)"
| "Inline_word (field # rest) cur word =
     (if word = field @ '':'' then Inline_word rest (Some field) []
      else Inline_word rest cur word)"

fun Inline_words :: "string list \<Rightarrow> string option \<Rightarrow> obj \<Rightarrow> string list \<Rightarrow> obj" where
  "Inline_words names cur fs [] = fs"
| "Inline_words names cur fs (word # rest) =
     (let (word', cur') = Inline_word names cur word
      in Inline_words names cur' (obj_append fs (js_str cur') (word' @ '' '')) rest)"

definition Inline_getFields :: "formatter \<Rightarrow> AbstractNote \<Rightarrow> obj" where
  "Inline_getFields fmt this =
     format_fields fmt (is_cloze_type (n_note_type this) \<and> n_curly_cloze this)
       (n_highlights_to_cloze this)
       (Inline_words (n_field_names this) (n_current_field this)
          (init_fields (n_field_names this)) (split (n_text this) (CHR '' '')))"

subsection \<open>Callout notes\<close>

text \<open>
  \<^verbatim>\<open>/#([^\s]*)/gm\<close>, \<^verbatim>\<open>/\[!anki[:]?(.*)?\](?:.*)/\<close>,
  \<^verbatim>\<open>/^> \[!anki[:]?(?:.*)?\](?:-*\s*)?([^\n]*)\n([\S\s]*)/\<close>,
  \<^verbatim>\<open>/(#[^\s]*)/gm\<close> and \<^verbatim>\<open>/^>\s?/gm\<close>
\<close>

definition Callout_TAG_REGEXP :: regex where
  "Callout_TAG_REGEXP = seqs [Lit ''#'', Group 1 (Star (NoneOf js_whitespace))]"

definition Callout_TYPE_REGEXP :: regex where
  "Callout_TYPE_REGEXP =
     seqs [Lit ''[!anki'', Opt (OneOf '':''), Opt (Group 1 (Star dot)), Lit '']'', Star dot]"

definition Callout_FIELDS_REGEXP :: regex where
  "Callout_FIELDS_REGEXP =
     seqs [Bol, Lit ''> [!anki'', Opt (OneOf '':''), Opt (Star dot), Lit '']'',
           Opt (Seq (Star (Lit ''-'')) (Star (OneOf js_whitespace))),
           Group 1 (Star (NoneOf [CHR 0x0A])), Lit [CHR 0x0A], Group 2 (Star any_char)]"

definition removeTags :: "string \<Rightarrow> string" where
  "removeTags t = replace_all (Group 1 (Seq (Lit ''#'') (Star (NoneOf js_whitespace)))) (\<lambda>m. []) t"

definition removeBlockquotes :: "string \<Rightarrow> string" where
  "removeBlockquotes t =
     replace_all (seqs [BolM, Lit ''>'', Opt (OneOf js_whitespace)]) (\<lambda>m. []) t"

definition Callout_getNoteType :: "AbstractNote \<Rightarrow> js_error + jstext \<times> AbstractNote" where
  "Callout_getNoteType this =
     (case rsearch Callout_TYPE_REGEXP (n_text this) 0 of
        Some m \<Rightarrow> Inr (of_opt (group m 1), this)
      | None \<Rightarrow> Inr (Null, this))"

definition CalloutNote_methods :: note_methods where
  "CalloutNote_methods =
     \<lparr>getSplitText = (\<lambda>this. split (n_text this) (CHR '' '')),
      getIdentifier = Inline_getIdentifier,
      getTags = (\<lambda>this. Inr (map (\<lambda>m. js_str (group m 1))
                                  (matchAll Callout_TAG_REGEXP (n_text this)), this)),
      getNoteType = Callout_getNoteType\<rparr>"

definition CalloutNote_new ::
  "string \<Rightarrow> (string \<times> string list) list \<Rightarrow> bool \<Rightarrow> bool \<Rightarrow> js_error + AbstractNote"
where
  "CalloutNote_new = AbstractNote_new CalloutNote_methods"

text \<open>
  \<open>getFields\<close> of a callout: with no match of the pattern, reading \<open>match[1]\<close> throws;
  with an empty Front or Back the empty object is returned and the console is written
  to (the flag of the result).
\<close>

definition Callout_getFields :: "formatter \<Rightarrow> AbstractNote \<Rightarrow> js_error + obj \<times> bool" where
  "Callout_getFields fmt this =
     (case rsearch Callout_FIELDS_REGEXP (n_text this) 0 of
        None \<Rightarrow> Inl TypeError
      | Some m \<Rightarrow>
          (case (group m 1, group m 2) of
             (Some g1, Some g2) \<Rightarrow>
               (let fs = init_fields (n_field_names this);
                    front = removeTags g1;
                    back = removeBlockquotes g2
                in if front = [] \<or> back = [] then Inr ([], True)
                   else Inr (format_fields fmt (n_curly_cloze this) (n_highlights_to_cloze this)
                               (obj_set (obj_set fs ''Front'' front) ''Back'' back), False))
           | _ \<Rightarrow> Inl TypeError))"

subsection \<open>The shared parse\<close>

text \<open>\<^verbatim>\<open>/#(\w+)/g\<close> and \<^verbatim>\<open>/{{c\d+::[\s\S]+?}}/\<close>\<close>

definition OBS_TAG_REGEXP :: regex where
  "OBS_TAG_REGEXP = seqs [Lit ''#'', Group 1 (Plus (OneOf word_chars))]"

definition ANKI_CLOZE_REGEXP :: regex where
  "ANKI_CLOZE_REGEXP = seqs [Lit ''{{c'', Plus digit, Lit ''::'', PlusLazy any_char, Lit ''}}'']"

definition has_clozes :: "string \<Rightarrow> bool" where
  "has_clozes t = test ANKI_CLOZE_REGEXP t"

definition note_has_clozes :: "AnkiConnectNote \<Rightarrow> bool" where
  "note_has_clozes n = list_ex (\<lambda>(k, v). has_clozes v) (note_fields n)"

definition format_note_with_url :: "AnkiConnectNote \<Rightarrow> string \<Rightarrow> string option \<Rightarrow> AnkiConnectNote" where
  "format_note_with_url n url field =
     n\<lparr>note_fields := obj_append (note_fields n) (js_str field)
          (''<br><a href='' @ [CHR 0x22] @ url @ [CHR 0x22] @ '' class='' @ [CHR 0x22]
             @ ''obsidian-link'' @ [CHR 0x22] @ ''>Obsidian</a>'')\<rparr>"

text \<open>
  \<open>format_note_with_frozen_fields\<close>: the loop body reads
  \<open>frozenFieldsDict[note.modelName][field]\<close>, which throws when the type has no entry
  (and the note has a field to run the body on).
\<close>

definition format_note_with_frozen_fields ::
  "AnkiConnectNote \<Rightarrow> (string \<times> obj) list \<Rightarrow> js_error + AnkiConnectNote"
where
  "format_note_with_frozen_fields n frozenFieldsDict =
     (if note_fields n = [] then Inr n
      else case map_of frozenFieldsDict (prop_key (modelName n)) of
             None \<Rightarrow> Inl TypeError
           | Some frozen \<Rightarrow>
               Inr (n\<lparr>note_fields :=
                         map (\<lambda>(field, v). (field, v @ js_str (obj_get frozen field)))
                             (note_fields n)\<rparr>))"

text \<open>
  The steps of \<open>parse\<close> between \<open>getFields\<close> and the tags, which the two \<open>parse\<close>
  methods have in common: the link to the source document, the frozen fields, the
  context.
\<close>

definition decorate ::
  "AnkiConnectNote \<Rightarrow> jstext \<Rightarrow> string \<Rightarrow> (string \<times> obj) list \<Rightarrow> FileData \<Rightarrow> string
   \<Rightarrow> js_error + AnkiConnectNote"
where
  "decorate n ty url frozenFieldsDict data context =
     (let n = (if url \<noteq> []
               then format_note_with_url n url (obj_get (file_link_fields data) (prop_key ty))
               else n)
      in bind (if frozenFieldsDict \<noteq> [] then format_note_with_frozen_fields n frozenFieldsDict
               else Inr n) (\<lambda>n.
         Inr (if context \<noteq> []
              then n\<lparr>note_fields := obj_append (note_fields n)
                          (js_str (obj_get (context_fields data) (prop_key ty))) context\<rparr>
              else n)))"

text \<open>
  \<open>AbstractNote.parse\<close>. The variant's \<open>getFields\<close> is the first argument; it returns
  the fields and whether it wrote to the console. A note without a type in the schema
  returns before \<open>getFields\<close> is called.
\<close>

definition parse ::
  "(AbstractNote \<Rightarrow> js_error + obj \<times> bool) \<Rightarrow> AbstractNote \<Rightarrow> string \<Rightarrow> string
   \<Rightarrow> (string \<times> obj) list \<Rightarrow> FileData \<Rightarrow> string
   \<Rightarrow> js_error + AnkiConnectNoteAndID \<times> report list"
where
  "parse getFields this deck url frozenFieldsDict data context =
     (let t = (template data)\<lparr>modelName := n_note_type this\<rparr>
      in if n_no_note_type this
         then Inr (\<lparr>anki_note = t, ident = Some NOTE_TYPE_ERROR\<rparr>, [])
         else bind (getFields this) (\<lambda>(fs, complained).
              bind (decorate (t\<lparr>note_fields := fs\<rparr>) (n_note_type this) url
                      frozenFieldsDict data context) (\<lambda>t.
              let found = (if add_obs_tags data
                           then concat (map (\<lambda>(key, v). map (\<lambda>m. js_str (group m 1))
                                                              (matchAll OBS_TAG_REGEXP v))
                                            (note_fields t))
                           else []);
                  t = (if add_obs_tags data
                       then t\<lparr>note_fields :=
                                map (\<lambda>(key, v). (key, replace_all OBS_TAG_REGEXP (\<lambda>m. []) v))
                                    (note_fields t)\<rparr>
                       else t);
                  t = t\<lparr>tags := tags t @ n_tags this @ found, deckName := deck\<rparr>
              in Inr (\<lparr>anki_note = t, ident = n_identifier this\<rparr>,
                      if complained then [EmptyFrontOrBack] else []))))"

subsection \<open>Pattern-defined notes\<close>

text \<open>
  A match of a pattern is its offset and the array of the whole match and the captures
  (\<open>undefined\<close> for a capture that took no part). \<open>pop\<close> takes the last entry off.
\<close>

record re_match =
  m_index :: nat
  m_groups :: "string option list"

definition pop_value :: "string option list \<Rightarrow> string option" where
  "pop_value xs = (case last_opt xs of None \<Rightarrow> None | Some v \<Rightarrow> v)"

record RegexNote =
  r_match :: "string option list"
  r_note_type :: string
  r_identifier :: "jsnum option"
  r_tags :: "string list"
  r_field_names :: "string list option"
  r_curly_cloze :: bool
  r_highlights_to_cloze :: bool

definition RegexNote_new ::
  "string option list \<Rightarrow> string \<Rightarrow> (string \<times> string list) list \<Rightarrow> bool \<Rightarrow> bool \<Rightarrow> bool \<Rightarrow> bool
   \<Rightarrow> js_error + RegexNote"
where
  "RegexNote_new mt ty fdict with_tags with_id curly highlights =
     (let (i, mt) = (if with_id then (Some (parseInt_num (pop_value mt)), butlast mt)
                     else (None, mt))
      in bind (if with_tags
               then (case pop_value mt of
                       None \<Rightarrow> Inl TypeError
                     | Some t \<Rightarrow> Inr (split (slice_from t (length TAG_PREFIX)) TAG_SEP, butlast mt))
               else Inr ([], mt)) (\<lambda>(ts, mt).
         Inr \<lparr>r_match = mt, r_note_type = ty, r_identifier = i, r_tags = ts,
              r_field_names = map_of fdict ty, r_curly_cloze = curly,
              r_highlights_to_cloze = highlights\<rparr>))"

text \<open>
  \<open>getFields\<close>: capture \<open>index\<close> goes to the field \<open>field_names[index]\<close>, which is
  \<open>undefined\<close> past the end of the schema's list.
\<close>

fun Regex_captures :: "string list \<Rightarrow> obj \<Rightarrow> nat \<Rightarrow> string option list \<Rightarrow> obj" where
  "Regex_captures names fs index [] = fs"
| "Regex_captures names fs index (g # rest) =
     Regex_captures names
       (obj_set fs (js_str (nth_opt names index)) (case g of None \<Rightarrow> [] | Some x \<Rightarrow> x))
       (Suc index) rest"

definition RegexNote_getFields :: "formatter \<Rightarrow> RegexNote \<Rightarrow> js_error + obj" where
  "RegexNote_getFields fmt this =
     (case r_field_names this of
        None \<Rightarrow> Inl TypeError
      | Some names \<Rightarrow>
          Inr (format_fields fmt (is_cloze_type (Str (r_note_type this)) \<and> r_curly_cloze this)
                 (r_highlights_to_cloze this)
                 (Regex_captures names (init_fields names) 0 (drop 1 (r_match this)))))"

definition RegexNote_parse ::
  "formatter \<Rightarrow> RegexNote \<Rightarrow> string \<Rightarrow> string \<Rightarrow> (string \<times> obj) list \<Rightarrow> FileData \<Rightarrow> string
   \<Rightarrow> js_error + AnkiConnectNoteAndID"
where
  "RegexNote_parse fmt this deck url frozenFieldsDict data context =
     (let t = (template data)\<lparr>modelName := Str (r_note_type this)\<rparr>
      in bind (RegexNote_getFields fmt this) (\<lambda>fs.
         bind (decorate (t\<lparr>note_fields := fs\<rparr>) (Str (r_note_type this)) url
                 frozenFieldsDict data context) (\<lambda>t.
         let i = (if is_cloze_type (Str (r_note_type this)) \<and> \<not> note_has_clozes t
                  then Some CLOZE_ERROR else r_identifier this);
             t = t\<lparr>tags := tags t @ r_tags this, deckName := deck\<rparr>
         in Inr \<lparr>anki_note = t, ident = i\<rparr>)))"

section \<open>The scanner\<close>

text \<open>
  What a scan reads and does not change: the path and address of the document, the
  settings, the headings of the metadata cache when it has them, and what
  \<open>setupScan\<close> computed (frozen fields, target deck, global tags). The formatter is
  the function of the note extractors.
\<close>

record HeadingCache =
  heading :: string
  level :: nat
  start_offset :: nat

record scan_ctx =
  path :: string
  url :: string
  data :: FileData
  headings :: "HeadingCache list option"
  frozen_fields_dict :: "(string \<times> obj) list"
  target_deck :: string
  global_tags :: "string option"
  fmt :: formatter

definition entry :: "string option list \<Rightarrow> nat \<Rightarrow> string option" where
  "entry xs i = (case nth_opt xs i of None \<Rightarrow> None | Some v \<Rightarrow> v)"

text \<open>
  \<open>setup_global_tags\<close>, from the result of \<open>this.file.match(this.data.TAG_REGEXP)\<close>:
  the first capture of the match, the empty string when there is no match.
\<close>

definition setup_global_tags :: "re_match option \<Rightarrow> string option" where
  "setup_global_tags result =
     (case result of None \<Rightarrow> Some [] | Some m \<Rightarrow> entry (m_groups m) 1)"

fun context_loop :: "nat \<Rightarrow> HeadingCache list \<Rightarrow> HeadingCache list \<Rightarrow> HeadingCache list" where
  "context_loop position currentContext [] = currentContext"
| "context_loop position currentContext (currentHeading # rest) =
     (if position < start_offset currentHeading then currentContext
      else let insert_index =
                 length (takeWhile (\<lambda>contextHeading. level contextHeading < level currentHeading)
                                   currentContext)
           in context_loop position (take insert_index currentContext @ [currentHeading]) rest)"

fun join_with :: "string \<Rightarrow> string list \<Rightarrow> string" where
  "join_with sep [] = []"
| "join_with sep [x] = x"
| "join_with sep (x # xs) = x @ sep @ join_with sep xs"

definition getContextAtIndex :: "scan_ctx \<Rightarrow> nat \<Rightarrow> string" where
  "getContextAtIndex cx position =
     (case headings cx of
        None \<Rightarrow> path cx
      | Some hs \<Rightarrow> join_with '' > '' (path cx # map heading (context_loop position [] hs)))"

definition context_at :: "scan_ctx \<Rightarrow> nat \<Rightarrow> string" where
  "context_at cx i = (if add_context (data cx) then getContextAtIndex cx i else [])"

text \<open>
  The note text and the insertion position of a block, inline or callout match:
  \<open>noteMatch.index + noteMatch[0].indexOf(noteMatch[1]) + noteMatch[1].length\<close>.
\<close>

definition note_and_position :: "re_match \<Rightarrow> js_error + string \<times> nat" where
  "note_and_position m =
     (case (entry (m_groups m) 0, entry (m_groups m) 1) of
        (Some m0, Some m1) \<Rightarrow>
          Inr (m1, nat (int (m_index m) + indexOf m0 m1 + int (length m1)))
      | _ \<Rightarrow> Inl TypeError)"

text \<open>\<open>parsed.note.tags.push(...this.global_tags.split(TAG_SEP))\<close>\<close>

definition push_global_tags :: "scan_ctx \<Rightarrow> AnkiConnectNote \<Rightarrow> js_error + AnkiConnectNote" where
  "push_global_tags cx n =
     (case global_tags cx of
        None \<Rightarrow> Inl TypeError
      | Some g \<Rightarrow> Inr (n\<lparr>tags := tags n @ split g TAG_SEP\<rparr>))"

definition includes_id :: "nat list \<Rightarrow> jsnum option \<Rightarrow> bool" where
  "includes_id ids i = (case i of Some (Num n) \<Rightarrow> n \<in> set ids | _ \<Rightarrow> False)"

definition warn :: "report \<Rightarrow> AllFile \<Rightarrow> AllFile" where
  "warn r f = f\<lparr>console := console f @ [r]\<rparr>"

definition id_of :: "jsnum option \<Rightarrow> jsnum" where
  "id_of i = (case i of None \<Rightarrow> NaN | Some n \<Rightarrow> n)"

text \<open>
  What each scanning loop does with a parsed note: the \<open>if\<close> chain at the end of the
  loop body of \<open>scanNotes\<close>, \<open>scanInlineNotes\<close> and \<open>scanCalloutNotes\<close>.
\<close>

definition dispose_block ::
  "scan_ctx \<Rightarrow> nat \<Rightarrow> AnkiConnectNoteAndID \<Rightarrow> AllFile \<Rightarrow> js_error + AllFile"
where
  "dispose_block cx position parsed f =
     (if ident parsed = None
      then bind (push_global_tags cx (anki_note parsed)) (\<lambda>n.
             Inr (f\<lparr>notes_to_add := notes_to_add f @ [n],
                     id_indexes := id_indexes f @ [position]\<rparr>))
      else if \<not> includes_id (EXISTING_IDS (data cx)) (ident parsed)
      then (if ident parsed = Some CLOZE_ERROR then Inr f
            else if ident parsed = Some NOTE_TYPE_ERROR
            then Inr (warn (UnknownNoteType (modelName (anki_note parsed))) f)
            else Inr (warn (DoesNotExist (id_of (ident parsed))) f))
      else Inr (f\<lparr>notes_to_edit := notes_to_edit f @ [parsed]\<rparr>))"

definition dispose_inline ::
  "scan_ctx \<Rightarrow> nat \<Rightarrow> AnkiConnectNoteAndID \<Rightarrow> AllFile \<Rightarrow> js_error + AllFile"
where
  "dispose_inline cx position parsed f =
     (if ident parsed = None
      then bind (push_global_tags cx (anki_note parsed)) (\<lambda>n.
             Inr (f\<lparr>inline_notes_to_add := inline_notes_to_add f @ [n],
                     inline_id_indexes := inline_id_indexes f @ [position]\<rparr>))
      else if \<not> includes_id (EXISTING_IDS (data cx)) (ident parsed)
      then (if ident parsed = Some CLOZE_ERROR then Inr f
            else Inr (warn (DoesNotExist (id_of (ident parsed))) f))
      else Inr (f\<lparr>notes_to_edit := notes_to_edit f @ [parsed]\<rparr>))"

definition dispose_callout ::
  "scan_ctx \<Rightarrow> nat \<Rightarrow> AnkiConnectNoteAndID \<Rightarrow> AllFile \<Rightarrow> js_error + AllFile"
where
  "dispose_callout cx position parsed f =
     (if ident parsed = None
      then bind (push_global_tags cx (anki_note parsed)) (\<lambda>n.
             Inr (f\<lparr>callout_notes_to_add := callout_notes_to_add f @ [n],
                     callout_id_indexes := callout_id_indexes f @ [position]\<rparr>))
      else if \<not> includes_id (EXISTING_IDS (data cx)) (ident parsed)
      then (if ident parsed = Some CLOZE_ERROR then Inr f
            else if ident parsed = Some NOTE_TYPE_ERROR
            then Inr (warn (UnknownNoteType (modelName (anki_note parsed))) f)
            else Inr (warn (DoesNotExist (id_of (ident parsed))) f))
      else Inr (f\<lparr>notes_to_edit := notes_to_edit f @ [parsed]\<rparr>))"

text \<open>
  One pass of a loop body: build the note object of the variant from the capture, parse
  it, and dispose of the result. An exception ends the scan.
\<close>

definition scan_step ::
  "(string \<Rightarrow> (string \<times> string list) list \<Rightarrow> bool \<Rightarrow> bool \<Rightarrow> js_error + AbstractNote)
   \<Rightarrow> (AbstractNote \<Rightarrow> js_error + obj \<times> bool)
   \<Rightarrow> (scan_ctx \<Rightarrow> nat \<Rightarrow> AnkiConnectNoteAndID \<Rightarrow> AllFile \<Rightarrow> js_error + AllFile)
   \<Rightarrow> scan_ctx \<Rightarrow> re_match \<Rightarrow> AllFile \<Rightarrow> js_error + AllFile"
where
  "scan_step new getFields dispose cx noteMatch f =
     bind (note_and_position noteMatch) (\<lambda>(note_text, position).
     bind (new note_text (fields_dict (data cx)) (curly_cloze (data cx))
             (highlights_to_cloze (data cx))) (\<lambda>this.
     bind (parse getFields this (target_deck cx) (url cx) (frozen_fields_dict cx) (data cx)
             (context_at cx (m_index noteMatch))) (\<lambda>(parsed, reports).
     dispose cx position parsed (f\<lparr>console := console f @ reports\<rparr>))))"

fun scan_loop ::
  "(re_match \<Rightarrow> AllFile \<Rightarrow> js_error + AllFile) \<Rightarrow> re_match list \<Rightarrow> AllFile \<Rightarrow> js_error + AllFile"
where
  "scan_loop step [] f = Inr f"
| "scan_loop step (m # ms) f = bind (step m f) (scan_loop step ms)"

definition scanNotes :: "scan_ctx \<Rightarrow> re_match list \<Rightarrow> AllFile \<Rightarrow> js_error + AllFile" where
  "scanNotes cx matches f =
     scan_loop (scan_step Note_new (\<lambda>this. Inr (Note_getFields (fmt cx) this, False))
                  dispose_block cx) matches f"

definition scanInlineNotes :: "scan_ctx \<Rightarrow> re_match list \<Rightarrow> AllFile \<Rightarrow> js_error + AllFile" where
  "scanInlineNotes cx matches f =
     scan_loop (scan_step InlineNote_new (\<lambda>this. Inr (Inline_getFields (fmt cx) this, False))
                  dispose_inline cx) matches f"

definition scanCalloutNotes :: "scan_ctx \<Rightarrow> re_match list \<Rightarrow> AllFile \<Rightarrow> js_error + AllFile" where
  "scanCalloutNotes cx matches f =
     scan_loop (scan_step CalloutNote_new (Callout_getFields (fmt cx)) dispose_callout cx)
       matches f"

subsection \<open>Pattern-defined notes and the span registry\<close>

definition contained_in :: "nat \<times> nat \<Rightarrow> (nat \<times> nat) list \<Rightarrow> bool" where
  "contained_in span spans =
     list_ex (\<lambda>element. int (fst element) - 1 \<le> int (fst span)
                        \<and> int (snd span) \<le> int (snd element) + 1) spans"

text \<open>
  What \<open>search\<close> does with a parsed match of the pass \<open>searchId\<close>: the \<open>if\<close> chain
  at the end of its loop body. The span of the match is the last one claimed; an
  invalid cloze releases it. The note object has popped the tag and identifier captures
  off the array of the match, the same array \<open>match[0]\<close> is read from here.
\<close>

definition dispose_regex ::
  "scan_ctx \<Rightarrow> bool \<Rightarrow> re_match \<Rightarrow> RegexNote \<Rightarrow> AnkiConnectNoteAndID \<Rightarrow> AllFile
   \<Rightarrow> js_error + AllFile"
where
  "dispose_regex cx searchId mt this parsed f =
     (if searchId
      then (if \<not> includes_id (EXISTING_IDS (data cx)) (ident parsed)
            then (if ident parsed = Some CLOZE_ERROR
                  then Inr (f\<lparr>ignore_spans := butlast (ignore_spans f)\<rparr>)
                  else Inr (warn (DoesNotExist (id_of (ident parsed))) f))
            else Inr (f\<lparr>notes_to_edit := notes_to_edit f @ [parsed]\<rparr>))
      else (if ident parsed = Some CLOZE_ERROR
            then Inr (f\<lparr>ignore_spans := butlast (ignore_spans f)\<rparr>)
            else bind (push_global_tags cx (anki_note parsed)) (\<lambda>n.
                 case entry (r_match this) 0 of
                   None \<Rightarrow> Inl TypeError
                 | Some whole \<Rightarrow>
                     Inr (f\<lparr>regex_notes_to_add := regex_notes_to_add f @ [n],
                             regex_id_indexes :=
                               regex_id_indexes f @ [m_index mt + length whole]\<rparr>))))"

text \<open>
  The body of the innermost loop of \<open>search\<close> for one match of the pass
  (\<open>searchId\<close>, \<open>searchTags\<close>), with the test of \<open>findignore\<close> in front: a match inside
  a claimed span is passed over, any other claims its span at once.
\<close>

definition search_step ::
  "scan_ctx \<Rightarrow> string \<Rightarrow> bool \<Rightarrow> bool \<Rightarrow> re_match \<Rightarrow> AllFile \<Rightarrow> js_error + AllFile"
where
  "search_step cx noteType searchId searchTags mt f =
     (case entry (m_groups mt) 0 of
        None \<Rightarrow> Inl TypeError
      | Some m0 \<Rightarrow>
          if contained_in (m_index mt, m_index mt + length m0) (ignore_spans f) then Inr f
          else
            let f = f\<lparr>ignore_spans := ignore_spans f @ [(m_index mt, m_index mt + length m0)]\<rparr>
            in bind (RegexNote_new (m_groups mt) noteType (fields_dict (data cx)) searchTags searchId
                       (curly_cloze (data cx)) (highlights_to_cloze (data cx))) (\<lambda>this.
               bind (RegexNote_parse (fmt cx) this (target_deck cx) (url cx) (frozen_fields_dict cx)
                       (data cx) (context_at cx (m_index mt))) (\<lambda>parsed.
               dispose_regex cx searchId mt this parsed f)))"

text \<open>
  \<open>search\<close>: the four passes in the order of the source. \<open>found searchId searchTags\<close> is
  the list of all matches in the document of the pattern of that pass.
\<close>

definition search ::
  "scan_ctx \<Rightarrow> string \<Rightarrow> (bool \<Rightarrow> bool \<Rightarrow> re_match list) \<Rightarrow> AllFile \<Rightarrow> js_error + AllFile"
where
  "search cx noteType found f =
     bind (scan_loop (search_step cx noteType True True) (found True True) f) (\<lambda>f.
     bind (scan_loop (search_step cx noteType True False) (found True False) f) (\<lambda>f.
     bind (scan_loop (search_step cx noteType False True) (found False True) f) (\<lambda>f.
     scan_loop (search_step cx noteType False False) (found False False) f)))"

text \<open>
  \<open>scanFile\<close>. The matches of the patterns of the settings in the document and the spans
  \<open>add_spans_to_ignore\<close> starts from are the inputs; a pattern-defined type with an empty
  pattern is skipped.
\<close>

record scan_input =
  spans_to_ignore :: "(nat \<times> nat) list"
  block_matches :: "re_match list"
  inline_matches :: "re_match list"
  callout_matches :: "re_match list"
  custom_regexps :: "(string \<times> string) list"
  custom_matches :: "string \<Rightarrow> bool \<Rightarrow> bool \<Rightarrow> re_match list"

definition setupScan :: "string \<Rightarrow> scan_input \<Rightarrow> AllFile" where
  "setupScan text inp =
     \<lparr>file_text = text, ignore_spans = spans_to_ignore inp,
      notes_to_add = [], id_indexes = [],
      inline_notes_to_add = [], inline_id_indexes = [],
      regex_notes_to_add = [], regex_id_indexes = [],
      callout_notes_to_add = [], callout_id_indexes = [],
      notes_to_edit = [], note_ids = [], console = []\<rparr>"

fun search_all ::
  "scan_ctx \<Rightarrow> (string \<Rightarrow> bool \<Rightarrow> bool \<Rightarrow> re_match list) \<Rightarrow> (string \<times> string) list \<Rightarrow> AllFile
   \<Rightarrow> js_error + AllFile"
where
  "search_all cx found [] f = Inr f"
| "search_all cx found ((noteType, regexpStr) # rest) f =
     (if regexpStr \<noteq> [] then bind (search cx noteType (found noteType) f) (search_all cx found rest)
      else search_all cx found rest f)"

definition scanFile :: "scan_ctx \<Rightarrow> string \<Rightarrow> scan_input \<Rightarrow> js_error + AllFile" where
  "scanFile cx text inp =
     bind (scanNotes cx (block_matches inp) (setupScan text inp)) (\<lambda>f.
     bind (scanInlineNotes cx (inline_matches inp) f) (\<lambda>f.
     bind (scanCalloutNotes cx (callout_matches inp) f) (\<lambda>f.
     search_all cx (custom_matches inp) (custom_regexps inp) f)))"

section \<open>Cloze numbering\<close>

lemma replace_build_reader:
  assumes "\<And>m u. f m u = (g u m, u)"
  shows "replace_build s pos ms f st = (fst (replace_build s pos ms (\<lambda>m u. (g st m, u)) ()), st)"
proof -
  have f: "f = (\<lambda>m u. (g u m, u))"
    using assms by (intro ext) simp
  show ?thesis
    unfolding f
  proof (induction ms arbitrary: pos)
    case Nil
    show ?case by simp
  next
    case (Cons m ms)
    show ?case
      by (simp add: Cons.IH [of "fst (snd m)"] split: prod.splits)
  qed
qed

lemma cloze_repl_reader:
  "cloze_repl i t n =
     (''{{c'' @ (case i of None \<Rightarrow> toString n | Some j \<Rightarrow> j) @ ''::'' @ t @ ''}}'', n)"
  by (simp add: cloze_repl_def split: option.splits)

lemma format_counter: "snd (format env t c h n) = (if c then 1 else n)"
  by (simp add: format_def curly_to_cloze_def Let_def split: prod.splits)


text \<open>
  A setting for the parameters of the pipeline: a document without math, code, embedded
  media or links (the four patterns match nothing, the two cache passes change nothing)
  and a renderer that wraps a text in one paragraph, as a markdown renderer does with a
  line of plain text.
\<close>

definition paragraph_env :: format_env where
  "paragraph_env =
     \<lparr>OBS_INLINE_MATH_REGEXP = OneOf [], OBS_DISPLAY_MATH_REGEXP = OneOf [],
      OBS_CODE_REGEXP = OneOf [], OBS_DISPLAY_CODE_REGEXP = OneOf [], CODE_CSS_URL = [],
      makeHtml = (\<lambda>t. if t = [] then [] else ''<p>'' @ t @ ''</p>''),
      getAndFormatMedias = (\<lambda>t. t), formatLinks = (\<lambda>t. t)\<rparr>"

text \<open>
  Claim C1, as the code has it. The counter is read but never incremented: in one call
  every curly span without a number of its own is rewritten with the same number, the
  value of the counter when the call starts, and a formatting call with cloze conversion
  leaves the counter at 1. So the text \<open>{hello} and {world}\<close> becomes
  \<open>{{c1::hello}} and {{c1::world}}\<close>, and the next call numbers from 1 again.
\<close>

theorem curly_to_cloze_fixed_number:
  "curly_to_cloze text n = (replace_all CLOZE_REGEXP (cloze_markup n) text, 1)
   \<and> snd (format env text True highlightToCloze n) = 1
   \<and> curly_to_cloze ''{hello} and {world}'' 1 = (''{{c1::hello}} and {{c1::world}}'', 1)
   \<and> format paragraph_env ''{hello} and {world}'' True False 1
       = (''{{c1::hello}} and {{c1::world}}'', 1)"
proof (intro conjI)
  have "replace_fn CLOZE_REGEXP (\<lambda>m. cloze_repl (group m 1) (js_str (group m 2))) text n
        = (replace_all CLOZE_REGEXP (cloze_markup n) text, n)"
    unfolding replace_fn_def replace_all_def
    by (rule replace_build_reader) (simp add: cloze_repl_reader cloze_markup_def)
  then show "curly_to_cloze text n = (replace_all CLOZE_REGEXP (cloze_markup n) text, 1)"
    by (simp add: curly_to_cloze_def)
  show "snd (format env text True highlightToCloze n) = 1"
    by (simp add: format_counter)
  show "curly_to_cloze ''{hello} and {world}'' 1 = (''{{c1::hello}} and {{c1::world}}'', 1)"
    by code_simp
  show "format paragraph_env ''{hello} and {world}'' True False 1
          = (''{{c1::hello}} and {{c1::world}}'', 1)"
    by code_simp
qed

text \<open>
  Claim C1 as stated fails: the second span of \<open>{hello} and {world}\<close> is not numbered 2.
\<close>

theorem cloze_increment_counterexample:
  "fst (curly_to_cloze ''{hello} and {world}'' 1) \<noteq> ''{{c1::hello}} and {{c2::world}}''
   \<and> fst (format paragraph_env ''{hello} and {world}'' True False 1)
       \<noteq> ''{{c1::hello}} and {{c2::world}}''"
  by code_simp

section \<open>The identifiers of a creation batch\<close>

text \<open>
  A document with one block note and one callout note, both new, after the store has
  answered the batch \<open>[block note, callout note]\<close> with the identifiers 111 and 222.
\<close>

definition example_note :: "string \<Rightarrow> AnkiConnectNote" where
  "example_note q =
     \<lparr>deckName = ''Default'', modelName = Str ''Basic'',
      note_fields = [(''Front'', q), (''Back'', ''a'')], tags = []\<rparr>"

definition block_and_callout :: AllFile where
  "block_and_callout =
     \<lparr>file_text = ''START\<newline>Basic\<newline>q1\<newline>Back: a\<newline>END\<newline>> [!anki:Basic] q2\<newline>> a\<newline>'',
      ignore_spans = [],
      notes_to_add = [example_note ''q1''], id_indexes = [23],
      inline_notes_to_add = [], inline_id_indexes = [],
      regex_notes_to_add = [], regex_id_indexes = [],
      callout_notes_to_add = [example_note ''q2''], callout_id_indexes = [50],
      notes_to_edit = [], note_ids = [Some (Num 111), Some (Num 222)], console = []\<rparr>"

text \<open>
  Claim C2 at this document. The batch is sent in the order block, inline,
  pattern-defined, callout, so the callout note is the second of the batch and its
  identifier is 222. The callout loop of \<open>writeIDs\<close> reads \<open>note_ids\<close> at \<open>index\<close>
  without the offset of the earlier categories: the callout note is given 111, the
  identifier of the block note.
\<close>

theorem writeIDs_callout_reads_first_segment:
  "all_notes_to_add block_and_callout = [example_note ''q1'', example_note ''q2'']
   \<and> calloutInserts block_and_callout False = [(50, ''> ID: 111\<newline>'')]
   \<and> file_text (writeIDs block_and_callout False) =
       ''START\<newline>Basic\<newline>q1\<newline>Back: a\<newline>ID: 111\<newline>END\<newline>> [!anki:Basic] q2\<newline>> a\<newline>> ID: 111\<newline>''"
  by code_simp

section \<open>Writing back nothing\<close>

lemma replace_all_no_match: "matchAll r s = [] \<Longrightarrow> replace_all r g s = s"
  by (simp add: replace_all_def replace_fn_def)

lemma string_insert_empty: "string_insert text [] = text"
  by (simp add: string_insert_def)

lemma writeIDs_empty_lists:
  assumes "id_indexes f = []" and "inline_id_indexes f = []"
    and "regex_id_indexes f = []" and "callout_id_indexes f = []"
  shows "file_text (writeIDs f cm) = fix_newline_ids (file_text f)"
  using assms
  by (simp add: writeIDs_def normalInserts_def inlineInserts_def regexInserts_def
      calloutInserts_def string_insert_empty)

definition nothing_to_add :: "string \<Rightarrow> AllFile" where
  "nothing_to_add text =
     \<lparr>file_text = text, ignore_spans = [],
      notes_to_add = [], id_indexes = [],
      inline_notes_to_add = [], inline_id_indexes = [],
      regex_notes_to_add = [], regex_id_indexes = [],
      callout_notes_to_add = [], callout_id_indexes = [],
      notes_to_edit = [], note_ids = [], console = []\<rparr>"

text \<open>
  Claim C6, as the code has it. With no position to insert at, the write-back is the
  final pass alone, and that pass runs on the whole document: the text is left as it is
  when no line break in it is directly followed by a line break and an identifier marker
  (\<open>ID: \<close> and digits, with or without the comment opener before it).
\<close>

theorem writeIDs_nothing_to_insert:
  "id_indexes f = [] \<Longrightarrow> inline_id_indexes f = [] \<Longrightarrow> regex_id_indexes f = []
   \<Longrightarrow> callout_id_indexes f = [] \<Longrightarrow> matchAll double_regexp (file_text f) = []
   \<Longrightarrow> file_text (writeIDs f cm) = file_text f"
  by (simp add: writeIDs_empty_lists fix_newline_ids_def replace_all_no_match)

theorem writeIDs_nothing_to_insert_witness:
  "file_text (writeIDs (nothing_to_add ''START\<newline>Basic\<newline>q\<newline>ID: 12\<newline>END\<newline>'') True)
     = ''START\<newline>Basic\<newline>q\<newline>ID: 12\<newline>END\<newline>''"
proof -
  let ?f = "nothing_to_add ''START\<newline>Basic\<newline>q\<newline>ID: 12\<newline>END\<newline>''"
  have 1: "id_indexes ?f = []" and 2: "inline_id_indexes ?f = []"
    and 3: "regex_id_indexes ?f = []" and 4: "callout_id_indexes ?f = []"
    by (simp_all add: nothing_to_add_def)
  have 5: "matchAll double_regexp (file_text ?f) = []"
    by code_simp
  from writeIDs_nothing_to_insert [OF 1 2 3 4 5, of True] show ?thesis
    by (simp add: nothing_to_add_def)
qed

text \<open>
  Claim C6 as stated fails: a document that already holds an identifier line after a
  blank line loses the blank line, although nothing is inserted.
\<close>

theorem writeIDs_nothing_to_insert_counterexample:
  "file_text (writeIDs (nothing_to_add ''Basic\<newline>q\<newline>\<newline>ID: 12\<newline>'') False)
     = ''Basic\<newline>q\<newline>ID: 12\<newline>''
   \<and> file_text (writeIDs (nothing_to_add ''Basic\<newline>q\<newline>\<newline>ID: 12\<newline>'') False)
     \<noteq> ''Basic\<newline>q\<newline>\<newline>ID: 12\<newline>''"
  by code_simp

section \<open>A small document setting\<close>

text \<open>
  A schema with a plain and a cloze type, settings with a given snapshot of known
  identifiers, and a document without a global tag line. The formatter of the setting
  is the pipeline in the setting \<open>paragraph_env\<close>.
\<close>

definition example_schema :: "(string \<times> string list) list" where
  "example_schema = [(''Basic'', [''Front'', ''Back'']), (''Cloze'', [''Text'', ''Extra''])]"

definition example_data :: "nat list \<Rightarrow> FileData" where
  "example_data ids =
     \<lparr>fields_dict = example_schema, curly_cloze = True, highlights_to_cloze = False,
      EXISTING_IDS = ids,
      template = \<lparr>deckName = ''Default'', modelName = Str [], note_fields = [],
                   tags = [''Obsidian_to_Anki'']\<rparr>,
      file_link_fields = [], context_fields = [], add_context = False, add_obs_tags = False,
      comment = False\<rparr>"

definition plain_formatter :: formatter where
  "plain_formatter t cloze highlights = fst (format paragraph_env t cloze highlights 1)"

definition example_ctx :: "nat list \<Rightarrow> scan_ctx" where
  "example_ctx ids =
     \<lparr>path = ''note.md'', url = [], data = example_data ids, headings = None,
      frozen_fields_dict = [], target_deck = ''Default'', global_tags = setup_global_tags None,
      fmt = plain_formatter\<rparr>"

text \<open>A match whose first capture \<open>body\<close> stands between \<open>pre\<close> and \<open>post\<close>.\<close>

definition whole_match :: "nat \<Rightarrow> string \<Rightarrow> string \<Rightarrow> string \<Rightarrow> re_match" where
  "whole_match i pre body post = \<lparr>m_index = i, m_groups = [Some (pre @ body @ post), Some body]\<rparr>"

section \<open>Exceptions of the extractors\<close>

text \<open>
  Claim C8 at an inline note without a bracketed type token. \<open>getNoteType\<close> reads
  \<open>result.index\<close> of a match that is \<open>null\<close>: the constructor throws, for every schema
  and both switches, and the exception ends the scan of the document. (The callout
  variant tests the result of the same kind of match and returns \<open>null\<close> as the type.)
\<close>

theorem InlineNote_without_type_token_throws:
  "InlineNote_new ''What is 2+2? Back: 4'' fdict curly highlights = Inl TypeError
   \<and> scanInlineNotes (example_ctx [])
        [whole_match 0 ''STARTI '' ''What is 2+2? Back: 4'' '' ENDI'']
        (nothing_to_add ''STARTI What is 2+2? Back: 4 ENDI'') = Inl TypeError"
proof
  show "InlineNote_new ''What is 2+2? Back: 4'' fdict curly highlights = Inl TypeError"
    by (simp add: InlineNote_new_def AbstractNote_new_def InlineNote_methods_def bind_def
          Inline_getIdentifier_def Inline_getTags_def Inline_getNoteType_def) code_simp
  show "scanInlineNotes (example_ctx [])
          [whole_match 0 ''STARTI '' ''What is 2+2? Back: 4'' '' ENDI'']
          (nothing_to_add ''STARTI What is 2+2? Back: 4 ENDI'') = Inl TypeError"
    by code_simp
qed

section \<open>Identifiers the store does not know\<close>

text \<open>
  What the end of each loop body does with a note whose identifier is not in the
  snapshot of known identifiers: the tests for the two values come first.
\<close>

lemma dispose_block_absent:
  assumes "ident parsed = Some i" and "\<not> includes_id (EXISTING_IDS (data cx)) (Some i)"
  shows "dispose_block cx pos parsed f =
           Inr (if i = CLOZE_ERROR then f
                else if i = NOTE_TYPE_ERROR
                     then warn (UnknownNoteType (modelName (anki_note parsed))) f
                     else warn (DoesNotExist i) f)"
  using assms by (simp add: dispose_block_def id_of_def)

lemma dispose_inline_absent:
  assumes "ident parsed = Some i" and "\<not> includes_id (EXISTING_IDS (data cx)) (Some i)"
  shows "dispose_inline cx pos parsed f =
           Inr (if i = CLOZE_ERROR then f else warn (DoesNotExist i) f)"
  using assms by (simp add: dispose_inline_def id_of_def)

lemma dispose_callout_absent:
  assumes "ident parsed = Some i" and "\<not> includes_id (EXISTING_IDS (data cx)) (Some i)"
  shows "dispose_callout cx pos parsed f =
           Inr (if i = CLOZE_ERROR then f
                else if i = NOTE_TYPE_ERROR
                     then warn (UnknownNoteType (modelName (anki_note parsed))) f
                     else warn (DoesNotExist i) f)"
  using assms by (simp add: dispose_callout_def id_of_def)

lemma dispose_regex_absent:
  assumes "ident parsed = Some i" and "\<not> includes_id (EXISTING_IDS (data cx)) (Some i)"
  shows "dispose_regex cx True mt this parsed f =
           Inr (if i = CLOZE_ERROR then f\<lparr>ignore_spans := butlast (ignore_spans f)\<rparr>
                else warn (DoesNotExist i) f)"
  using assms by (simp add: dispose_regex_def id_of_def)

text \<open>
  A pattern-defined note with the identifier 42, as the passes of \<open>search\<close> find it for
  a pattern that captures the text after \<open>Q: \<close>: the pass with the identifier suffix
  matches the note together with its identifier line, the pass without suffixes matches
  the first line alone.
\<close>

definition id42_passes :: "bool \<Rightarrow> bool \<Rightarrow> re_match list" where
  "id42_passes searchId searchTags =
     (if searchId \<and> \<not> searchTags
      then [\<lparr>m_index = 0, m_groups = [Some ''Q: q\<newline>ID: 42'', Some ''q'', Some ''42'']\<rparr>]
      else if \<not> searchId \<and> \<not> searchTags
      then [\<lparr>m_index = 0, m_groups = [Some ''Q: q'', Some ''q'']\<rparr>]
      else [])"

text \<open>
  Claim C4 at the identifiers 42 and 69. The values that signal an invalid cloze and an
  unknown note type are the ordinary numbers 42 and 69, and the scanners test for them
  before they report an identifier the store does not know. The store knows no
  identifier here.

  \<^item> A block note of the known type \<open>Basic\<close> that carries \<open>ID: 70\<close> is reported as not
    existing and is put on no list.
  \<^item> The same note with \<open>ID: 42\<close> is passed over and nothing is reported.
  \<^item> The same note with \<open>ID: 69\<close> is reported as a note of an unknown type.
  \<^item> A pattern-defined note with \<open>ID: 42\<close> is not reported either: the pass with the
    identifier releases its span, the pass without suffixes then matches its first line
    as a new note, and the scan ends with the note on the creation list and a position
    for a second identifier line.
\<close>

theorem dangling_identifier_42_and_69:
  "scanNotes (example_ctx [])
     [whole_match 0 ''START\<newline>'' ''Basic\<newline>q\<newline>Back: a\<newline>ID: 70\<newline>'' ''END'']
     (nothing_to_add ''START\<newline>Basic\<newline>q\<newline>Back: a\<newline>ID: 70\<newline>END'')
   = Inr ((nothing_to_add ''START\<newline>Basic\<newline>q\<newline>Back: a\<newline>ID: 70\<newline>END'')
            \<lparr>console := [DoesNotExist (Num 70)]\<rparr>)
   \<and> scanNotes (example_ctx [])
       [whole_match 0 ''START\<newline>'' ''Basic\<newline>q\<newline>Back: a\<newline>ID: 42\<newline>'' ''END'']
       (nothing_to_add ''START\<newline>Basic\<newline>q\<newline>Back: a\<newline>ID: 42\<newline>END'')
     = Inr ((nothing_to_add ''START\<newline>Basic\<newline>q\<newline>Back: a\<newline>ID: 42\<newline>END'')
              \<lparr>console := []\<rparr>)
   \<and> scanNotes (example_ctx [])
       [whole_match 0 ''START\<newline>'' ''Basic\<newline>q\<newline>Back: a\<newline>ID: 69\<newline>'' ''END'']
       (nothing_to_add ''START\<newline>Basic\<newline>q\<newline>Back: a\<newline>ID: 69\<newline>END'')
     = Inr ((nothing_to_add ''START\<newline>Basic\<newline>q\<newline>Back: a\<newline>ID: 69\<newline>END'')
              \<lparr>console := [UnknownNoteType (Str ''Basic'')]\<rparr>)
   \<and> search (example_ctx []) ''Basic'' id42_passes (nothing_to_add ''Q: q\<newline>ID: 42'')
     = Inr ((nothing_to_add ''Q: q\<newline>ID: 42'')
              \<lparr>ignore_spans := [(0, 4)],
                regex_notes_to_add :=
                  [\<lparr>deckName = ''Default'', modelName = Str ''Basic'',
                     note_fields = [(''Front'', ''q''), (''Back'', [])],
                     tags = [''Obsidian_to_Anki'', []]\<rparr>],
                regex_id_indexes := [4], console := []\<rparr>)"
  by code_simp

section \<open>Block notes of an unknown type\<close>

lemma AbstractNote_new_no_type:
  assumes "AbstractNote_new cls t fdict c h = Inr this"
    and "map_of fdict (prop_key (n_note_type this)) = None"
  shows "n_no_note_type this"
  using assms
  by (auto simp: AbstractNote_new_def bind_def Let_def
           split: sum.splits prod.splits option.splits)

lemma parse_no_type:
  "n_no_note_type this \<Longrightarrow>
   parse getFields this deck u frozen d context =
     Inr (\<lparr>anki_note = (template d)\<lparr>modelName := n_note_type this\<rparr>,
           ident = Some NOTE_TYPE_ERROR\<rparr>, [])"
  by (simp add: parse_def)

text \<open>
  \<open>same_lists f g\<close>: the creation lists and the update list of \<open>g\<close> are those of \<open>f\<close>.
\<close>

definition same_lists :: "AllFile \<Rightarrow> AllFile \<Rightarrow> bool" where
  "same_lists f g =
     (notes_to_add g = notes_to_add f \<and> inline_notes_to_add g = inline_notes_to_add f
      \<and> regex_notes_to_add g = regex_notes_to_add f
      \<and> callout_notes_to_add g = callout_notes_to_add f
      \<and> notes_to_edit g = notes_to_edit f)"

text \<open>
  The loop body of \<open>scanNotes\<close> while the store knows no note 69. For a block note that
  is constructed and whose type label is not a key of the schema, \<open>parse\<close> returns the
  template with the type label as its model name and nothing else changed, together
  with the value 69; \<open>getFields\<close> plays no part in the result. The loop body then
  writes the unknown-type report to the console and changes no list.
\<close>

lemma unknown_type_block_note:
  assumes "Note_new note_text (fields_dict (data cx)) (curly_cloze (data cx))
             (highlights_to_cloze (data cx)) = Inr this"
    and "map_of (fields_dict (data cx)) (prop_key (n_note_type this)) = None"
    and "note_and_position noteMatch = Inr (note_text, position)"
    and "69 \<notin> set (EXISTING_IDS (data cx))"
  shows "parse getFields this deck u frozen d context =
           Inr (\<lparr>anki_note = (template d)\<lparr>modelName := n_note_type this\<rparr>,
                 ident = Some NOTE_TYPE_ERROR\<rparr>, [])
       \<and> note_fields ((template d)\<lparr>modelName := n_note_type this\<rparr>) = note_fields (template d)
       \<and> scan_step Note_new getFields dispose_block cx noteMatch f =
           Inr (warn (UnknownNoteType (n_note_type this)) f)
       \<and> same_lists f (warn (UnknownNoteType (n_note_type this)) f)"
proof -
  have no: "n_no_note_type this"
    using AbstractNote_new_no_type [of Note_methods] assms(1,2)
    by (simp add: Note_new_def)
  have absent: "\<not> includes_id (EXISTING_IDS (data cx)) (Some NOTE_TYPE_ERROR)"
    using assms(4) by (simp add: includes_id_def NOTE_TYPE_ERROR_def)
  have "scan_step Note_new getFields dispose_block cx noteMatch f =
          dispose_block cx position
            \<lparr>anki_note = (template (data cx))\<lparr>modelName := n_note_type this\<rparr>,
              ident = Some NOTE_TYPE_ERROR\<rparr> f"
    by (simp add: scan_step_def bind_def assms(1,3) parse_no_type [OF no])
  also have "\<dots> = Inr (warn (UnknownNoteType (n_note_type this)) f)"
    using dispose_block_absent [OF _ absent, of _ position f]
    by (simp add: CLOZE_ERROR_def NOTE_TYPE_ERROR_def)
  finally show ?thesis
    by (simp add: parse_no_type [OF no] same_lists_def warn_def)
qed

text \<open>
  Claim C9 where the store knows a note 69, and at a block that is an identifier line
  only. The value that signals an unknown type is the ordinary number 69, and the loop
  body of \<open>scanNotes\<close> looks the identifier up among the known ones before it tests for
  that value.

  \<^item> While the store knows the note 5 only, the block note of the unknown type
    \<open>Basics\<close> is reported and put on no list.
  \<^item> When the store knows a note 69, the same block note is put on the update list as
    the note 69, with the template's empty field map, and nothing is reported.
  \<^item> For a block that holds an identifier line and nothing else, \<open>getTags\<close> reads the
    last line of an empty list of lines: the constructor throws and the scan ends.
\<close>

theorem unknown_type_known_69_queued:
  "scanNotes (example_ctx [5])
     [whole_match 0 ''START\<newline>'' ''Basics\<newline>q\<newline>Back: a\<newline>'' ''END'']
     (nothing_to_add ''START\<newline>Basics\<newline>q\<newline>Back: a\<newline>END'')
   = Inr ((nothing_to_add ''START\<newline>Basics\<newline>q\<newline>Back: a\<newline>END'')
            \<lparr>console := [UnknownNoteType (Str ''Basics'')]\<rparr>)
   \<and> scanNotes (example_ctx [69])
       [whole_match 0 ''START\<newline>'' ''Basics\<newline>q\<newline>Back: a\<newline>'' ''END'']
       (nothing_to_add ''START\<newline>Basics\<newline>q\<newline>Back: a\<newline>END'')
     = Inr ((nothing_to_add ''START\<newline>Basics\<newline>q\<newline>Back: a\<newline>END'')
              \<lparr>notes_to_edit :=
                 [\<lparr>anki_note = \<lparr>deckName = ''Default'', modelName = Str ''Basics'',
                                 note_fields = [], tags = [''Obsidian_to_Anki'']\<rparr>,
                    ident = Some (Num 69)\<rparr>],
                console := []\<rparr>)
   \<and> scanNotes (example_ctx [5])
       [whole_match 0 ''START\<newline>'' ''ID: 1\<newline>'' ''END'']
       (nothing_to_add ''START\<newline>ID: 1\<newline>END'') = Inl TypeError"
  by code_simp

section \<open>Documents without a global tag line\<close>

lemma split_empty: "split [] sep = [[]]"
  by (simp add: split_def)

text \<open>
  Claim C10. Without a match of the global tag pattern the global tag string is empty,
  it splits into the one-element list of the empty string, and each scanner appends that
  entry to the tags of a note it puts on its creation list: block, inline and callout
  notes, and pattern-defined notes (in the passes without an identifier, where the
  position is read from the array of the match).
\<close>

theorem no_global_tags_appends_empty_tag:
  assumes "global_tags cx = setup_global_tags None" and "ident parsed = None"
    and "entry (r_match this) 0 = Some whole"
  shows "setup_global_tags None = Some [] \<and> split [] TAG_SEP = [[]]
       \<and> dispose_block cx pos parsed f =
           Inr (f\<lparr>notes_to_add :=
                     notes_to_add f @ [(anki_note parsed)\<lparr>tags := tags (anki_note parsed) @ [[]]\<rparr>],
                   id_indexes := id_indexes f @ [pos]\<rparr>)
       \<and> dispose_inline cx pos parsed f =
           Inr (f\<lparr>inline_notes_to_add :=
                     inline_notes_to_add f @ [(anki_note parsed)\<lparr>tags := tags (anki_note parsed) @ [[]]\<rparr>],
                   inline_id_indexes := inline_id_indexes f @ [pos]\<rparr>)
       \<and> dispose_callout cx pos parsed f =
           Inr (f\<lparr>callout_notes_to_add :=
                     callout_notes_to_add f @ [(anki_note parsed)\<lparr>tags := tags (anki_note parsed) @ [[]]\<rparr>],
                   callout_id_indexes := callout_id_indexes f @ [pos]\<rparr>)
       \<and> dispose_regex cx False mt this parsed f =
           Inr (f\<lparr>regex_notes_to_add :=
                     regex_notes_to_add f @ [(anki_note parsed)\<lparr>tags := tags (anki_note parsed) @ [[]]\<rparr>],
                   regex_id_indexes := regex_id_indexes f @ [m_index mt + length whole]\<rparr>)"
  using assms
  by (simp add: setup_global_tags_def split_empty dispose_block_def dispose_inline_def
        dispose_callout_def dispose_regex_def push_global_tags_def bind_def)

theorem no_global_tags_appends_empty_tag_witness:
  "dispose_block (example_ctx []) 22 \<lparr>anki_note = example_note ''q'', ident = None\<rparr>
     (nothing_to_add ''x'')
   = Inr ((nothing_to_add ''x'')
            \<lparr>notes_to_add := [(example_note ''q'')\<lparr>tags := [[]]\<rparr>], id_indexes := [22]\<rparr>)
   \<and> dispose_regex (example_ctx []) False \<lparr>m_index = 3, m_groups = [Some ''Q: q'', Some ''q'']\<rparr>
       \<lparr>r_match = [Some ''Q: q'', Some ''q''], r_note_type = ''Basic'', r_identifier = None,
         r_tags = [], r_field_names = Some [''Front'', ''Back''], r_curly_cloze = True,
         r_highlights_to_cloze = False\<rparr>
       \<lparr>anki_note = example_note ''q'', ident = None\<rparr> (nothing_to_add ''x'')
   = Inr ((nothing_to_add ''x'')
            \<lparr>regex_notes_to_add := [(example_note ''q'')\<lparr>tags := [[]]\<rparr>],
              regex_id_indexes := [7]\<rparr>)"
proof -
  let ?p = "\<lparr>anki_note = example_note ''q'', ident = None\<rparr>"
  let ?obj = "\<lparr>r_match = [Some ''Q: q'', Some ''q''], r_note_type = ''Basic'',
                 r_identifier = None, r_tags = [], r_field_names = Some [''Front'', ''Back''],
                 r_curly_cloze = True, r_highlights_to_cloze = False\<rparr>"
  have 1: "global_tags (example_ctx []) = setup_global_tags None"
    by (simp add: example_ctx_def)
  have 2: "ident ?p = None"
    by simp
  have 3: "entry (r_match ?obj) 0 = Some ''Q: q''"
    by (simp add: entry_def nth_opt_def)
  from no_global_tags_appends_empty_tag [OF 1 2 3, of 22 "nothing_to_add ''x''"
      "\<lparr>m_index = 3, m_groups = [Some ''Q: q'', Some ''q'']\<rparr>"]
  show ?thesis
    by (simp add: nothing_to_add_def example_note_def)
qed

section \<open>Insertion positions\<close>

lemma scan_loop_append:
  "scan_loop step (ms @ [m]) f = bind (scan_loop step ms f) (step m)"
proof (induction ms arbitrary: f)
  case Nil
  show ?case by (simp add: bind_def split: sum.splits)
next
  case (Cons a ms)
  show ?case by (simp add: bind_def Cons.IH split: sum.splits)
qed

lemma scan_step_position:
  assumes "m_groups m = Some (pre @ body @ post) # Some body # rest"
    and "indexOf (pre @ body @ post) body = int (length pre)"
    and "new body (fields_dict (data cx)) (curly_cloze (data cx)) (highlights_to_cloze (data cx))
           = Inr this"
    and "parse getFields this (target_deck cx) (url cx) (frozen_fields_dict cx) (data cx)
           (context_at cx (m_index m)) = Inr (parsed, reports)"
  shows "scan_step new getFields dispose cx m f =
           dispose cx (m_index m + length pre + length body) parsed
             (f\<lparr>console := console f @ reports\<rparr>)"
proof -
  have "note_and_position m = Inr (body, m_index m + length pre + length body)"
    using assms(1,2) by (simp add: note_and_position_def entry_def nth_opt_def)
  then show ?thesis
    using assms(3,4) by (simp add: scan_step_def bind_def)
qed

lemma RegexNote_new_whole:
  assumes "RegexNote_new (Some whole # caps) ty fdict searchTags False c hl = Inr this"
    and "searchTags \<longrightarrow> caps \<noteq> []"
  shows "entry (r_match this) 0 = Some whole"
  using assms
  by (auto simp: RegexNote_new_def bind_def entry_def nth_opt_def pop_value_def last_opt_def
           split: if_splits option.splits)

lemma search_step_position:
  assumes "m_groups mt = Some whole # caps" and "searchTags \<longrightarrow> caps \<noteq> []"
    and "\<not> contained_in (m_index mt, m_index mt + length whole) (ignore_spans f)"
    and "RegexNote_new (m_groups mt) ty (fields_dict (data cx)) searchTags False
           (curly_cloze (data cx)) (highlights_to_cloze (data cx)) = Inr this"
    and "RegexNote_parse (fmt cx) this (target_deck cx) (url cx) (frozen_fields_dict cx) (data cx)
           (context_at cx (m_index mt)) = Inr parsed"
    and "ident parsed = None" and "global_tags cx = Some g"
  shows "search_step cx ty False searchTags mt f =
           Inr (f\<lparr>ignore_spans := ignore_spans f @ [(m_index mt, m_index mt + length whole)],
                   regex_notes_to_add :=
                     regex_notes_to_add f
                     @ [(anki_note parsed)\<lparr>tags := tags (anki_note parsed) @ split g TAG_SEP\<rparr>],
                   regex_id_indexes := regex_id_indexes f @ [m_index mt + length whole]\<rparr>)"
proof -
  have w: "entry (r_match this) 0 = Some whole"
    using RegexNote_new_whole assms(1,2,4) by simp
  have c: "CLOZE_ERROR \<noteq> NaN"
    by (simp add: CLOZE_ERROR_def)
  show ?thesis
    using assms(1,3,4,5,6,7) w
    by (simp add: search_step_def entry_def nth_opt_def bind_def Let_def dispose_regex_def
          push_global_tags_def)
qed

text \<open>
  The matches of the four passes of \<open>search\<close>, in the order of the passes: with both
  suffixes, with the identifier suffix, with the tag suffix, without suffixes.
\<close>

definition passes ::
  "re_match list \<Rightarrow> re_match list \<Rightarrow> re_match list \<Rightarrow> re_match list \<Rightarrow> bool \<Rightarrow> bool
   \<Rightarrow> re_match list"
where
  "passes both idOnly tagsOnly plain searchId searchTags =
     (if searchId then (if searchTags then both else idOnly)
      else (if searchTags then tagsOnly else plain))"

lemma search_last_tagged:
  assumes "search cx ty (passes both idOnly ms []) f = Inr f1"
  shows "search cx ty (passes both idOnly (ms @ [mt]) []) f = search_step cx ty False True mt f1"
  using assms
  by (auto simp: search_def passes_def scan_loop_append bind_def split: sum.splits)

lemma search_last_plain:
  assumes "search cx ty (passes both idOnly tagsOnly ms) f = Inr f1"
  shows "search cx ty (passes both idOnly tagsOnly (ms @ [mt])) f
           = search_step cx ty False False mt f1"
  using assms
  by (auto simp: search_def passes_def scan_loop_append bind_def split: sum.splits)

text \<open>
  Claim C7, as the code has it, for the note a scanner meets last, a note that is
  constructed and parsed without an identifier, in a document with a global tag string.

  \<^item> Block, inline and callout notes, for a match at offset \<open>i\<close> whose text is
    \<open>pre @ body @ post\<close> with the first capture \<open>body\<close>, where the text \<open>body\<close> does not
    occur in the match before the capture: the scanner appends the note to its creation
    list and the offset \<open>i + length pre + length body\<close>, the end of the capture, to its
    list of positions.
  \<^item> Pattern-defined notes, in the pass with the tag suffix and in the pass without
    suffixes, for a match at offset \<open>j\<close> with the text \<open>whole\<close> that is not inside a
    claimed span: \<open>search\<close> appends the note to its creation list and the offset
    \<open>j + length whole\<close>, the end of the whole match, to its list of positions.
\<close>

theorem insertion_positions:
  assumes "global_tags cx = Some g"
    and "indexOf (pre @ body @ post) body = int (length pre)"
    and "m = \<lparr>m_index = i, m_groups = Some (pre @ body @ post) # Some body # rest\<rparr>"
    and "mt = \<lparr>m_index = j, m_groups = Some whole # cap # caps\<rparr>"
  shows
    "(scanNotes cx ms f = Inr f1 \<longrightarrow>
      Note_new body (fields_dict (data cx)) (curly_cloze (data cx))
        (highlights_to_cloze (data cx)) = Inr this \<longrightarrow>
      parse (\<lambda>this. Inr (Note_getFields (fmt cx) this, False)) this (target_deck cx) (url cx)
        (frozen_fields_dict cx) (data cx) (context_at cx i) = Inr (parsed, reports) \<longrightarrow>
      ident parsed = None \<longrightarrow>
        (\<exists>h. scanNotes cx (ms @ [m]) f = Inr h
              \<and> id_indexes h = id_indexes f1 @ [i + length pre + length body]
              \<and> notes_to_add h =
                  notes_to_add f1
                  @ [(anki_note parsed)\<lparr>tags := tags (anki_note parsed) @ split g TAG_SEP\<rparr>]))
   \<and> (scanInlineNotes cx ms f = Inr f1 \<longrightarrow>
      InlineNote_new body (fields_dict (data cx)) (curly_cloze (data cx))
        (highlights_to_cloze (data cx)) = Inr this \<longrightarrow>
      parse (\<lambda>this. Inr (Inline_getFields (fmt cx) this, False)) this (target_deck cx) (url cx)
        (frozen_fields_dict cx) (data cx) (context_at cx i) = Inr (parsed, reports) \<longrightarrow>
      ident parsed = None \<longrightarrow>
        (\<exists>h. scanInlineNotes cx (ms @ [m]) f = Inr h
              \<and> inline_id_indexes h = inline_id_indexes f1 @ [i + length pre + length body]
              \<and> inline_notes_to_add h =
                  inline_notes_to_add f1
                  @ [(anki_note parsed)\<lparr>tags := tags (anki_note parsed) @ split g TAG_SEP\<rparr>]))
   \<and> (scanCalloutNotes cx ms f = Inr f1 \<longrightarrow>
      CalloutNote_new body (fields_dict (data cx)) (curly_cloze (data cx))
        (highlights_to_cloze (data cx)) = Inr this \<longrightarrow>
      parse (Callout_getFields (fmt cx)) this (target_deck cx) (url cx)
        (frozen_fields_dict cx) (data cx) (context_at cx i) = Inr (parsed, reports) \<longrightarrow>
      ident parsed = None \<longrightarrow>
        (\<exists>h. scanCalloutNotes cx (ms @ [m]) f = Inr h
              \<and> callout_id_indexes h = callout_id_indexes f1 @ [i + length pre + length body]
              \<and> callout_notes_to_add h =
                  callout_notes_to_add f1
                  @ [(anki_note parsed)\<lparr>tags := tags (anki_note parsed) @ split g TAG_SEP\<rparr>]))
   \<and> (search cx ty (passes both idOnly ms []) f = Inr f1 \<longrightarrow>
      \<not> contained_in (j, j + length whole) (ignore_spans f1) \<longrightarrow>
      RegexNote_new (m_groups mt) ty (fields_dict (data cx)) True False
        (curly_cloze (data cx)) (highlights_to_cloze (data cx)) = Inr rn \<longrightarrow>
      RegexNote_parse (fmt cx) rn (target_deck cx) (url cx) (frozen_fields_dict cx) (data cx)
        (context_at cx j) = Inr rparsed \<longrightarrow>
      ident rparsed = None \<longrightarrow>
        (\<exists>h. search cx ty (passes both idOnly (ms @ [mt]) []) f = Inr h
              \<and> regex_id_indexes h = regex_id_indexes f1 @ [j + length whole]
              \<and> regex_notes_to_add h =
                  regex_notes_to_add f1
                  @ [(anki_note rparsed)\<lparr>tags := tags (anki_note rparsed) @ split g TAG_SEP\<rparr>]))
   \<and> (search cx ty (passes both idOnly tagsOnly ms) f = Inr f1 \<longrightarrow>
      \<not> contained_in (j, j + length whole) (ignore_spans f1) \<longrightarrow>
      RegexNote_new (m_groups mt) ty (fields_dict (data cx)) False False
        (curly_cloze (data cx)) (highlights_to_cloze (data cx)) = Inr rn \<longrightarrow>
      RegexNote_parse (fmt cx) rn (target_deck cx) (url cx) (frozen_fields_dict cx) (data cx)
        (context_at cx j) = Inr rparsed \<longrightarrow>
      ident rparsed = None \<longrightarrow>
        (\<exists>h. search cx ty (passes both idOnly tagsOnly (ms @ [mt])) f = Inr h
              \<and> regex_id_indexes h = regex_id_indexes f1 @ [j + length whole]
              \<and> regex_notes_to_add h =
                  regex_notes_to_add f1
                  @ [(anki_note rparsed)\<lparr>tags := tags (anki_note rparsed) @ split g TAG_SEP\<rparr>]))"
proof (intro conjI impI)
  have mg: "m_groups m = Some (pre @ body @ post) # Some body # rest" and mi: "m_index m = i"
    using assms(3) by simp_all
  {
    assume l: "scanNotes cx ms f = Inr f1"
      and n: "Note_new body (fields_dict (data cx)) (curly_cloze (data cx))
                (highlights_to_cloze (data cx)) = Inr this"
      and p: "parse (\<lambda>this. Inr (Note_getFields (fmt cx) this, False)) this (target_deck cx)
                (url cx) (frozen_fields_dict cx) (data cx) (context_at cx i) = Inr (parsed, reports)"
      and u: "ident parsed = None"
    from p have p': "parse (\<lambda>this. Inr (Note_getFields (fmt cx) this, False)) this (target_deck cx)
                (url cx) (frozen_fields_dict cx) (data cx) (context_at cx (m_index m))
                = Inr (parsed, reports)"
      by (simp add: mi)
    from l have "scanNotes cx (ms @ [m]) f =
                   scan_step Note_new (\<lambda>this. Inr (Note_getFields (fmt cx) this, False))
                     dispose_block cx m f1"
      by (simp add: scanNotes_def scan_loop_append bind_def)
    also have "\<dots> = dispose_block cx (i + length pre + length body) parsed
                        (f1\<lparr>console := console f1 @ reports\<rparr>)"
      using scan_step_position [where new = Note_new and cx = cx, OF mg assms(2) n p']
      by (simp add: mi)
    finally show "\<exists>h. scanNotes cx (ms @ [m]) f = Inr h
              \<and> id_indexes h = id_indexes f1 @ [i + length pre + length body]
              \<and> notes_to_add h =
                  notes_to_add f1
                  @ [(anki_note parsed)\<lparr>tags := tags (anki_note parsed) @ split g TAG_SEP\<rparr>]"
      using u assms(1) by (simp add: dispose_block_def push_global_tags_def bind_def)
  }
  {
    assume l: "scanInlineNotes cx ms f = Inr f1"
      and n: "InlineNote_new body (fields_dict (data cx)) (curly_cloze (data cx))
                (highlights_to_cloze (data cx)) = Inr this"
      and p: "parse (\<lambda>this. Inr (Inline_getFields (fmt cx) this, False)) this (target_deck cx)
                (url cx) (frozen_fields_dict cx) (data cx) (context_at cx i) = Inr (parsed, reports)"
      and u: "ident parsed = None"
    from p have p': "parse (\<lambda>this. Inr (Inline_getFields (fmt cx) this, False)) this (target_deck cx)
                (url cx) (frozen_fields_dict cx) (data cx) (context_at cx (m_index m))
                = Inr (parsed, reports)"
      by (simp add: mi)
    from l have "scanInlineNotes cx (ms @ [m]) f =
                   scan_step InlineNote_new (\<lambda>this. Inr (Inline_getFields (fmt cx) this, False))
                     dispose_inline cx m f1"
      by (simp add: scanInlineNotes_def scan_loop_append bind_def)
    also have "\<dots> = dispose_inline cx (i + length pre + length body) parsed
                        (f1\<lparr>console := console f1 @ reports\<rparr>)"
      using scan_step_position [where new = InlineNote_new and cx = cx, OF mg assms(2) n p']
      by (simp add: mi)
    finally show "\<exists>h. scanInlineNotes cx (ms @ [m]) f = Inr h
              \<and> inline_id_indexes h = inline_id_indexes f1 @ [i + length pre + length body]
              \<and> inline_notes_to_add h =
                  inline_notes_to_add f1
                  @ [(anki_note parsed)\<lparr>tags := tags (anki_note parsed) @ split g TAG_SEP\<rparr>]"
      using u assms(1) by (simp add: dispose_inline_def push_global_tags_def bind_def)
  }
  {
    assume l: "scanCalloutNotes cx ms f = Inr f1"
      and n: "CalloutNote_new body (fields_dict (data cx)) (curly_cloze (data cx))
                (highlights_to_cloze (data cx)) = Inr this"
      and p: "parse (Callout_getFields (fmt cx)) this (target_deck cx)
                (url cx) (frozen_fields_dict cx) (data cx) (context_at cx i) = Inr (parsed, reports)"
      and u: "ident parsed = None"
    from p have p': "parse (Callout_getFields (fmt cx)) this (target_deck cx)
                (url cx) (frozen_fields_dict cx) (data cx) (context_at cx (m_index m))
                = Inr (parsed, reports)"
      by (simp add: mi)
    from l have "scanCalloutNotes cx (ms @ [m]) f =
                   scan_step CalloutNote_new (Callout_getFields (fmt cx)) dispose_callout cx m f1"
      by (simp add: scanCalloutNotes_def scan_loop_append bind_def)
    also have "\<dots> = dispose_callout cx (i + length pre + length body) parsed
                        (f1\<lparr>console := console f1 @ reports\<rparr>)"
      using scan_step_position [where new = CalloutNote_new and cx = cx, OF mg assms(2) n p']
      by (simp add: mi)
    finally show "\<exists>h. scanCalloutNotes cx (ms @ [m]) f = Inr h
              \<and> callout_id_indexes h = callout_id_indexes f1 @ [i + length pre + length body]
              \<and> callout_notes_to_add h =
                  callout_notes_to_add f1
                  @ [(anki_note parsed)\<lparr>tags := tags (anki_note parsed) @ split g TAG_SEP\<rparr>]"
      using u assms(1) by (simp add: dispose_callout_def push_global_tags_def bind_def)
  }
  have tg: "m_groups mt = Some whole # (cap # caps)" and ti: "m_index mt = j"
    using assms(4) by simp_all
  {
    assume l: "search cx ty (passes both idOnly ms []) f = Inr f1"
      and s: "\<not> contained_in (j, j + length whole) (ignore_spans f1)"
      and n: "RegexNote_new (m_groups mt) ty (fields_dict (data cx)) True False
                (curly_cloze (data cx)) (highlights_to_cloze (data cx)) = Inr rn"
      and p: "RegexNote_parse (fmt cx) rn (target_deck cx) (url cx) (frozen_fields_dict cx)
                (data cx) (context_at cx j) = Inr rparsed"
      and u: "ident rparsed = None"
    have c: "True \<longrightarrow> cap # caps \<noteq> []"
      by simp
    from s have s': "\<not> contained_in (m_index mt, m_index mt + length whole) (ignore_spans f1)"
      by (simp add: ti)
    from p have p': "RegexNote_parse (fmt cx) rn (target_deck cx) (url cx) (frozen_fields_dict cx)
                (data cx) (context_at cx (m_index mt)) = Inr rparsed"
      by (simp add: ti)
    show "\<exists>h. search cx ty (passes both idOnly (ms @ [mt]) []) f = Inr h
              \<and> regex_id_indexes h = regex_id_indexes f1 @ [j + length whole]
              \<and> regex_notes_to_add h =
                  regex_notes_to_add f1
                  @ [(anki_note rparsed)\<lparr>tags := tags (anki_note rparsed) @ split g TAG_SEP\<rparr>]"
      by (simp add: search_last_tagged [OF l]
            search_step_position [OF tg c s' n p' u assms(1)] ti)
  }
  {
    assume l: "search cx ty (passes both idOnly tagsOnly ms) f = Inr f1"
      and s: "\<not> contained_in (j, j + length whole) (ignore_spans f1)"
      and n: "RegexNote_new (m_groups mt) ty (fields_dict (data cx)) False False
                (curly_cloze (data cx)) (highlights_to_cloze (data cx)) = Inr rn"
      and p: "RegexNote_parse (fmt cx) rn (target_deck cx) (url cx) (frozen_fields_dict cx)
                (data cx) (context_at cx j) = Inr rparsed"
      and u: "ident rparsed = None"
    have c: "False \<longrightarrow> cap # caps \<noteq> []"
      by simp
    from s have s': "\<not> contained_in (m_index mt, m_index mt + length whole) (ignore_spans f1)"
      by (simp add: ti)
    from p have p': "RegexNote_parse (fmt cx) rn (target_deck cx) (url cx) (frozen_fields_dict cx)
                (data cx) (context_at cx (m_index mt)) = Inr rparsed"
      by (simp add: ti)
    show "\<exists>h. search cx ty (passes both idOnly tagsOnly (ms @ [mt])) f = Inr h
              \<and> regex_id_indexes h = regex_id_indexes f1 @ [j + length whole]
              \<and> regex_notes_to_add h =
                  regex_notes_to_add f1
                  @ [(anki_note rparsed)\<lparr>tags := tags (anki_note rparsed) @ split g TAG_SEP\<rparr>]"
      by (simp add: search_last_plain [OF l]
            search_step_position [OF tg c s' n p' u assms(1)] ti)
  }
qed

text \<open>
  A document of two block notes, an inline note, a callout note, and a pattern-defined
  note with a tag line, each the last note its scanner meets.
\<close>

definition two_blocks :: string where
  "two_blocks = ''START\<newline>Basic\<newline>p\<newline>END\<newline>START\<newline>Basic\<newline>q\<newline>END''"

theorem insertion_positions_witness:
  "(\<exists>h. scanNotes (example_ctx [])
           ([whole_match 0 ''START\<newline>'' ''Basic\<newline>p\<newline>'' ''END\<newline>'']
            @ [\<lparr>m_index = 18, m_groups = [Some (''START\<newline>'' @ ''Basic\<newline>q\<newline>'' @ ''END''), Some ''Basic\<newline>q\<newline>'']\<rparr>])
           (nothing_to_add two_blocks) = Inr h
         \<and> id_indexes h = [14, 32])
   \<and> (\<exists>h. scanInlineNotes (example_ctx [])
           ([] @ [\<lparr>m_index = 3, m_groups = [Some (''STARTI '' @ ''[Basic] q Back: a'' @ '' ENDI''),
                                             Some ''[Basic] q Back: a'']\<rparr>])
           (nothing_to_add ''a\<newline>\<newline>STARTI [Basic] q Back: a ENDI'') = Inr h
         \<and> inline_id_indexes h = [27])
   \<and> (\<exists>h. scanCalloutNotes (example_ctx [])
           ([] @ [\<lparr>m_index = 5, m_groups = [Some ([] @ ''> [!anki:Basic] q\<newline>> a'' @ ''\<newline>''),
                                             Some ''> [!anki:Basic] q\<newline>> a'']\<rparr>])
           (nothing_to_add ''text\<newline>> [!anki:Basic] q\<newline>> a\<newline>'') = Inr h
         \<and> callout_id_indexes h = [26])
   \<and> (\<exists>h. search (example_ctx []) ''Basic''
           (passes [] [] ([] @ [\<lparr>m_index = 0, m_groups = [Some ''Q: q\<newline>Tags: x'', Some ''q'',
                                                            Some ''Tags: x'']\<rparr>]) [])
           (nothing_to_add ''Q: q\<newline>Tags: x'') = Inr h
         \<and> regex_id_indexes h = [12])
   \<and> (\<exists>h. search (example_ctx []) ''Basic''
           (passes [] [] [] ([] @ [\<lparr>m_index = 2, m_groups = [Some ''Q: q'', Some ''q'']\<rparr>]))
           (nothing_to_add ''a\<newline>Q: q'') = Inr h
         \<and> regex_id_indexes h = [6])"
proof -
  let ?cx = "example_ctx []"
  have g: "global_tags ?cx = Some []"
    by (simp add: example_ctx_def setup_global_tags_def)
  have cxs: "fields_dict (data ?cx) = example_schema" "curly_cloze (data ?cx) = True"
    "highlights_to_cloze (data ?cx) = False" "target_deck ?cx = ''Default''" "url ?cx = []"
    "frozen_fields_dict ?cx = []" "data ?cx = example_data []" "fmt ?cx = plain_formatter"
    "\<And>i. context_at ?cx i = []"
    by (simp_all add: example_ctx_def example_data_def context_at_def)
  let ?note = "\<lambda>front back. \<lparr>deckName = ''Default'', modelName = Str ''Basic'',
                   note_fields = [(''Front'', front), (''Back'', back)],
                   tags = [''Obsidian_to_Anki'']\<rparr>"
  let ?f1 = "(nothing_to_add two_blocks)
               \<lparr>notes_to_add := [(?note ''p'' [])\<lparr>tags := [''Obsidian_to_Anki'', []]\<rparr>],
                 id_indexes := [14]\<rparr>"
  let ?bn = "\<lparr>n_text = ''Basic\<newline>q'', n_split_text = [''Basic'', ''q''], n_identifier = None,
               n_tags = [], n_note_type = Str ''Basic'', n_field_names = [''Front'', ''Back''],
               n_current_field = Some ''Front'', n_curly_cloze = True,
               n_highlights_to_cloze = False, n_no_note_type = False\<rparr>"
  let ?bp = "\<lparr>anki_note = ?note ''q'' [], ident = None\<rparr>"
  have b0: "indexOf (''START\<newline>'' @ ''Basic\<newline>q\<newline>'' @ ''END'') ''Basic\<newline>q\<newline>'' = int (length ''START\<newline>'')"
    by code_simp
  have b1: "scanNotes ?cx [whole_match 0 ''START\<newline>'' ''Basic\<newline>p\<newline>'' ''END\<newline>'']
              (nothing_to_add two_blocks) = Inr ?f1"
    by code_simp
  have b2: "Note_new ''Basic\<newline>q\<newline>'' (fields_dict (data ?cx)) (curly_cloze (data ?cx))
              (highlights_to_cloze (data ?cx)) = Inr ?bn"
    by code_simp
  have b3: "parse (\<lambda>this. Inr (Note_getFields (fmt ?cx) this, False)) ?bn (target_deck ?cx)
              (url ?cx) (frozen_fields_dict ?cx) (data ?cx) (context_at ?cx 18) = Inr (?bp, [])"
    by code_simp
  have b4: "ident ?bp = None"
    by simp
  note rb = insertion_positions [where rest = "[]", OF g b0 refl refl, THEN conjunct1, rule_format, OF b1 b2 b3 b4]
  have b: "\<exists>h. scanNotes ?cx
                 ([whole_match 0 ''START\<newline>'' ''Basic\<newline>p\<newline>'' ''END\<newline>'']
                  @ [\<lparr>m_index = 18, m_groups = [Some (''START\<newline>'' @ ''Basic\<newline>q\<newline>'' @ ''END''), Some ''Basic\<newline>q\<newline>'']\<rparr>])
                 (nothing_to_add two_blocks) = Inr h
               \<and> id_indexes h = [14, 32]"
    using rb by (auto simp add: nothing_to_add_def)
  let ?it = "''a\<newline>\<newline>STARTI [Basic] q Back: a ENDI''"
  let ?inl = "\<lparr>n_text = '' q Back: a'', n_split_text = [''[Basic]'', ''q'', ''Back:'', ''a''],
                n_identifier = None, n_tags = [], n_note_type = Str ''Basic'',
                n_field_names = [''Front'', ''Back''], n_current_field = Some ''Front'',
                n_curly_cloze = True, n_highlights_to_cloze = False, n_no_note_type = False\<rparr>"
  let ?ip = "\<lparr>anki_note = ?note ''q'' ''a'', ident = None\<rparr>"
  have i0: "indexOf (''STARTI '' @ ''[Basic] q Back: a'' @ '' ENDI'') ''[Basic] q Back: a''
              = int (length ''STARTI '')"
    by code_simp
  have i1: "scanInlineNotes ?cx [] (nothing_to_add ?it) = Inr (nothing_to_add ?it)"
    by (simp add: scanInlineNotes_def)
  have i2: "InlineNote_new ''[Basic] q Back: a'' (fields_dict (data ?cx)) (curly_cloze (data ?cx))
              (highlights_to_cloze (data ?cx)) = Inr ?inl"
    by code_simp
  have i3: "parse (\<lambda>this. Inr (Inline_getFields (fmt ?cx) this, False)) ?inl (target_deck ?cx)
              (url ?cx) (frozen_fields_dict ?cx) (data ?cx) (context_at ?cx 3) = Inr (?ip, [])"
    by code_simp
  have i4: "ident ?ip = None"
    by simp
  note ri = insertion_positions [where rest = "[]", OF g i0 refl refl, THEN conjunct2, THEN conjunct1, rule_format,
                                 OF i1 i2 i3 i4]
  have i: "\<exists>h. scanInlineNotes ?cx
                 ([] @ [\<lparr>m_index = 3, m_groups = [Some (''STARTI '' @ ''[Basic] q Back: a'' @ '' ENDI''),
                                                   Some ''[Basic] q Back: a'']\<rparr>])
                 (nothing_to_add ?it) = Inr h
               \<and> inline_id_indexes h = [27]"
    using ri by (auto simp add: nothing_to_add_def)
  let ?ct = "''text\<newline>> [!anki:Basic] q\<newline>> a\<newline>''"
  let ?cn = "\<lparr>n_text = ''> [!anki:Basic] q\<newline>> a'',
               n_split_text = [''>'', ''[!anki:Basic]'', ''q\<newline>>'', ''a''], n_identifier = None,
               n_tags = [], n_note_type = Str ''Basic'', n_field_names = [''Front'', ''Back''],
               n_current_field = Some ''Front'', n_curly_cloze = True,
               n_highlights_to_cloze = False, n_no_note_type = False\<rparr>"
  have c0: "indexOf ([] @ ''> [!anki:Basic] q\<newline>> a'' @ ''\<newline>'') ''> [!anki:Basic] q\<newline>> a''
              = int (length ([] :: string))"
    by code_simp
  have c1: "scanCalloutNotes ?cx [] (nothing_to_add ?ct) = Inr (nothing_to_add ?ct)"
    by (simp add: scanCalloutNotes_def)
  have c2: "CalloutNote_new ''> [!anki:Basic] q\<newline>> a'' (fields_dict (data ?cx))
              (curly_cloze (data ?cx)) (highlights_to_cloze (data ?cx)) = Inr ?cn"
    by code_simp
  have c3: "parse (Callout_getFields (fmt ?cx)) ?cn (target_deck ?cx)
              (url ?cx) (frozen_fields_dict ?cx) (data ?cx) (context_at ?cx 5) = Inr (?ip, [])"
    by code_simp
  note rc = insertion_positions [where rest = "[]", OF g c0 refl refl, THEN conjunct2, THEN conjunct2, THEN conjunct1,
                                 rule_format, OF c1 c2 c3 i4]
  have c: "\<exists>h. scanCalloutNotes ?cx
                 ([] @ [\<lparr>m_index = 5, m_groups = [Some ([] @ ''> [!anki:Basic] q\<newline>> a'' @ ''\<newline>''),
                                                   Some ''> [!anki:Basic] q\<newline>> a'']\<rparr>])
                 (nothing_to_add ?ct) = Inr h
               \<and> callout_id_indexes h = [26]"
    using rc by (auto simp add: nothing_to_add_def)
  let ?tt = "''Q: q\<newline>Tags: x''"
  let ?mt = "\<lparr>m_index = 0, m_groups = [Some ''Q: q\<newline>Tags: x'', Some ''q'', Some ''Tags: x'']\<rparr>"
  let ?rn = "\<lparr>r_match = [Some ''Q: q\<newline>Tags: x'', Some ''q''], r_note_type = ''Basic'',
               r_identifier = None, r_tags = [''x''], r_field_names = Some [''Front'', ''Back''],
               r_curly_cloze = True, r_highlights_to_cloze = False\<rparr>"
  let ?tp = "\<lparr>anki_note = (?note ''q'' [])\<lparr>tags := [''Obsidian_to_Anki'', ''x'']\<rparr>, ident = None\<rparr>"
  have t1: "search ?cx ''Basic'' (passes [] [] [] []) (nothing_to_add ?tt) = Inr (nothing_to_add ?tt)"
    by (simp add: search_def passes_def bind_def)
  have t2: "\<not> contained_in (0, 0 + length ''Q: q\<newline>Tags: x'') (ignore_spans (nothing_to_add ?tt))"
    by (simp add: contained_in_def nothing_to_add_def)
  have t3: "RegexNote_new (m_groups ?mt) ''Basic'' (fields_dict (data ?cx)) True False
              (curly_cloze (data ?cx)) (highlights_to_cloze (data ?cx)) = Inr ?rn"
    by code_simp
  have t4: "RegexNote_parse (fmt ?cx) ?rn (target_deck ?cx) (url ?cx) (frozen_fields_dict ?cx)
              (data ?cx) (context_at ?cx 0) = Inr ?tp"
    by code_simp
  have t5: "ident ?tp = None"
    by simp
  note rt = insertion_positions [OF g b0 refl refl, THEN conjunct2, THEN conjunct2, THEN conjunct2,
                                 THEN conjunct1, rule_format, OF t1 t2 t3 t4 t5]
  have t: "\<exists>h. search ?cx ''Basic'' (passes [] [] ([] @ [?mt]) []) (nothing_to_add ?tt) = Inr h
               \<and> regex_id_indexes h = [12]"
    using rt by (auto simp add: nothing_to_add_def)
  let ?pt = "''a\<newline>Q: q''"
  let ?mp = "\<lparr>m_index = 2, m_groups = [Some ''Q: q'', Some ''q'']\<rparr>"
  let ?pn = "\<lparr>r_match = [Some ''Q: q'', Some ''q''], r_note_type = ''Basic'',
               r_identifier = None, r_tags = [], r_field_names = Some [''Front'', ''Back''],
               r_curly_cloze = True, r_highlights_to_cloze = False\<rparr>"
  have p1: "search ?cx ''Basic'' (passes [] [] [] []) (nothing_to_add ?pt) = Inr (nothing_to_add ?pt)"
    by (simp add: search_def passes_def bind_def)
  have p2: "\<not> contained_in (2, 2 + length ''Q: q'') (ignore_spans (nothing_to_add ?pt))"
    by (simp add: contained_in_def nothing_to_add_def)
  have p3: "RegexNote_new (m_groups ?mp) ''Basic'' (fields_dict (data ?cx)) False False
              (curly_cloze (data ?cx)) (highlights_to_cloze (data ?cx)) = Inr ?pn"
    by code_simp
  have p4: "RegexNote_parse (fmt ?cx) ?pn (target_deck ?cx) (url ?cx) (frozen_fields_dict ?cx)
              (data ?cx) (context_at ?cx 2) = Inr ?bp"
    by code_simp
  note rp = insertion_positions [OF g b0 refl refl, THEN conjunct2, THEN conjunct2, THEN conjunct2,
                                 THEN conjunct2, rule_format, OF p1 p2 p3 p4 b4]
  have p: "\<exists>h. search ?cx ''Basic'' (passes [] [] [] ([] @ [?mp])) (nothing_to_add ?pt) = Inr h
               \<and> regex_id_indexes h = [6]"
    using rp by (auto simp add: nothing_to_add_def)
  from b i c t p show ?thesis
    by blast
qed

text \<open>
  Claim C7 as stated fails for a pattern-defined note matched with a tag suffix: the
  content captured ends at offset 4, the recorded position is 12, the end of the whole
  match, after the tag line.
\<close>

theorem regex_position_counterexample:
  "search_step (example_ctx []) ''Basic'' False True
     \<lparr>m_index = 0, m_groups = [Some ''Q: q\<newline>Tags: x'', Some ''q'', Some ''Tags: x'']\<rparr>
     (nothing_to_add ''Q: q\<newline>Tags: x'')
   = Inr ((nothing_to_add ''Q: q\<newline>Tags: x'')
            \<lparr>ignore_spans := [(0, 12)],
              regex_notes_to_add :=
                [\<lparr>deckName = ''Default'', modelName = Str ''Basic'',
                   note_fields = [(''Front'', ''q''), (''Back'', [])],
                   tags = [''Obsidian_to_Anki'', ''x'', []]\<rparr>],
              regex_id_indexes := [12]\<rparr>)
   \<and> length ''Q: q\<newline>Tags: x'' = 12 \<and> length ''Q: q'' = 4"
  by code_simp

section \<open>Pattern-defined notes of a cloze type without clozes\<close>

lemma RegexNote_new_type:
  "RegexNote_new groups0 ty fdict with_tags with_id c hl = Inr this \<Longrightarrow> r_note_type this = ty"
  by (auto simp: RegexNote_new_def bind_def split: if_splits option.splits prod.splits)

lemma release_last: "f\<lparr>ignore_spans := butlast (ignore_spans f @ [span])\<rparr> = f"
  by simp

text \<open>
  The loop body of \<open>search\<close> while the store knows no note 42. A match that is not
  inside a claimed span, whose note type name contains \<open>cloze\<close> and whose fields (with
  the link, frozen fields and context added) hold no cloze marker, is parsed to the
  value 42, and the loop body leaves the state of the scan as it found it: nothing is
  added to a creation list or the update list, and the span the match had claimed is
  released. The passes without an identifier do so whatever the store knows.
\<close>

lemma invalid_cloze_released:
  assumes "entry (m_groups mt) 0 = Some m0"
    and "\<not> contained_in (m_index mt, m_index mt + length m0) (ignore_spans f)"
    and "RegexNote_new (m_groups mt) noteType (fields_dict (data cx)) searchTags searchId
           (curly_cloze (data cx)) (highlights_to_cloze (data cx)) = Inr this"
    and "RegexNote_getFields (fmt cx) this = Inr fs"
    and "decorate ((template (data cx))\<lparr>modelName := Str noteType, note_fields := fs\<rparr>)
           (Str noteType) (url cx) (frozen_fields_dict cx) (data cx)
           (context_at cx (m_index mt)) = Inr t"
    and "is_cloze_type (Str noteType)" and "\<not> note_has_clozes t"
    and "searchId \<longrightarrow> 42 \<notin> set (EXISTING_IDS (data cx))"
  shows "RegexNote_parse (fmt cx) this (target_deck cx) (url cx) (frozen_fields_dict cx) (data cx)
           (context_at cx (m_index mt))
         = Inr \<lparr>anki_note = t\<lparr>tags := tags t @ r_tags this, deckName := target_deck cx\<rparr>,
                ident = Some CLOZE_ERROR\<rparr>
       \<and> search_step cx noteType searchId searchTags mt f = Inr f"
proof -
  have ty: "r_note_type this = noteType"
    using assms(3) by (rule RegexNote_new_type)
  have p: "RegexNote_parse (fmt cx) this (target_deck cx) (url cx) (frozen_fields_dict cx)
             (data cx) (context_at cx (m_index mt))
           = Inr \<lparr>anki_note = t\<lparr>tags := tags t @ r_tags this, deckName := target_deck cx\<rparr>,
                  ident = Some CLOZE_ERROR\<rparr>"
    using assms(4,5,6,7) by (simp add: RegexNote_parse_def bind_def ty)
  have absent: "searchId \<Longrightarrow> \<not> includes_id (EXISTING_IDS (data cx)) (Some CLOZE_ERROR)"
    using assms(8) by (simp add: includes_id_def CLOZE_ERROR_def)
  have "search_step cx noteType searchId searchTags mt f = Inr f"
    using assms(1,2,3) absent
    by (cases searchId) (simp_all add: search_step_def bind_def p dispose_regex_def Let_def)
  with p show ?thesis by simp
qed

text \<open>
  A note of the type \<open>Cloze\<close> without a cloze marker, as the pass with the identifier
  suffix matches it, and its first line as the pass without suffixes matches it.
\<close>

definition cloze_match :: re_match where
  "cloze_match = \<lparr>m_index = 0, m_groups = [Some ''Some text\<newline>ID: 123'', Some ''Some text'', Some ''123'']\<rparr>"

definition cloze_match_no_id :: re_match where
  "cloze_match_no_id = \<lparr>m_index = 0, m_groups = [Some ''Some text'', Some ''Some text'']\<rparr>"

text \<open>
  Claim C5 where the store knows a note 42. The value that signals an invalid cloze is
  the ordinary number 42, and in the passes with an identifier \<open>search\<close> looks the
  identifier up among the known ones before it tests for that value; the passes without
  an identifier test for the value first.

  \<^item> While the store knows the note 7 only, the match is passed over: no list changes
    and its span is released.
  \<^item> When the store knows a note 42, the same match is put on the update list as the
    note 42, and its span (0, 17) stays claimed.
  \<^item> In the pass without suffixes the note without clozes is passed over and its span
    released, also when the store knows a note 42.
\<close>

theorem invalid_cloze_known_42_queued:
  "search_step (example_ctx [7]) ''Cloze'' True False cloze_match
     (nothing_to_add ''Some text\<newline>ID: 123'')
   = Inr (nothing_to_add ''Some text\<newline>ID: 123'')
   \<and> search_step (example_ctx [42]) ''Cloze'' True False cloze_match
       (nothing_to_add ''Some text\<newline>ID: 123'')
     = Inr ((nothing_to_add ''Some text\<newline>ID: 123'')
              \<lparr>ignore_spans := [(0, 17)],
                notes_to_edit :=
                  [\<lparr>anki_note = \<lparr>deckName = ''Default'', modelName = Str ''Cloze'',
                                 note_fields = [(''Text'', ''Some text''), (''Extra'', [])],
                                 tags = [''Obsidian_to_Anki'']\<rparr>,
                    ident = Some (Num 42)\<rparr>]\<rparr>)
   \<and> search_step (example_ctx [42]) ''Cloze'' False False cloze_match_no_id
       (nothing_to_add ''Some text'')
     = Inr (nothing_to_add ''Some text'')"
  by code_simp

section \<open>The keys of the field map\<close>














subsection \<open>Block notes\<close>








subsection \<open>Inline notes\<close>







subsection \<open>Pattern-defined notes\<close>





subsection \<open>Callout notes\<close>


subsection \<open>All four variants\<close>



subsection \<open>Four notes of the small setting\<close>









end
